theory Spec2Isabelle
  imports Main "HOL-Library.Sublist"
begin

section \<open>JavaScript strings\<close>

text \<open>
  A JavaScript string is modelled as a \<open>string\<close>, one \<open>char\<close> per code unit, for the
  code units U+0000 to U+00FF. On these, \<open>toLowerCase\<close> maps \<open>A\<close>..\<open>Z\<close> to
  \<open>a\<close>..\<open>z\<close> and the capital letters U+00C0..U+00DE, without the sign U+00D7, to
  the letters 32 places up; \<open>trim\<close> strips the white space and line terminators,
  which are U+0009 to U+000D, the space and the no-break space U+00A0. A request field
  that may be absent (\<open>undefined\<close>) is a \<open>string option\<close>; \<open>truthy\<close> is
  JavaScript's truthiness of such a field.
\<close>

definition upperCaseLetters :: string where
  "upperCaseLetters =
     ''ABCDEFGHIJKLMNOPQRSTUVWXYZ'' @
     [CHR 0xC0, CHR 0xC1, CHR 0xC2, CHR 0xC3, CHR 0xC4, CHR 0xC5, CHR 0xC6, CHR 0xC7,
      CHR 0xC8, CHR 0xC9, CHR 0xCA, CHR 0xCB, CHR 0xCC, CHR 0xCD, CHR 0xCE, CHR 0xCF,
      CHR 0xD0, CHR 0xD1, CHR 0xD2, CHR 0xD3, CHR 0xD4, CHR 0xD5, CHR 0xD6,
      CHR 0xD8, CHR 0xD9, CHR 0xDA, CHR 0xDB, CHR 0xDC, CHR 0xDD, CHR 0xDE]"

definition lowerCaseLetters :: string where
  "lowerCaseLetters =
     ''abcdefghijklmnopqrstuvwxyz'' @
     [CHR 0xE0, CHR 0xE1, CHR 0xE2, CHR 0xE3, CHR 0xE4, CHR 0xE5, CHR 0xE6, CHR 0xE7,
      CHR 0xE8, CHR 0xE9, CHR 0xEA, CHR 0xEB, CHR 0xEC, CHR 0xED, CHR 0xEE, CHR 0xEF,
      CHR 0xF0, CHR 0xF1, CHR 0xF2, CHR 0xF3, CHR 0xF4, CHR 0xF5, CHR 0xF6,
      CHR 0xF8, CHR 0xF9, CHR 0xFA, CHR 0xFB, CHR 0xFC, CHR 0xFD, CHR 0xFE]"

definition toLowerChar :: "char \<Rightarrow> char" where
  "toLowerChar c =
     (case map_of (zip upperCaseLetters lowerCaseLetters) c of
        None \<Rightarrow> c
      | Some d \<Rightarrow> d)"

definition toLowerCase :: "string \<Rightarrow> string" where
  "toLowerCase s = map toLowerChar s"

definition isWhiteSpace :: "char \<Rightarrow> bool" where
  "isWhiteSpace c =
     (c \<in> set [CHR 0x09, CHR 0x0A, CHR 0x0B, CHR 0x0C, CHR 0x0D, CHR 0x20, CHR 0xA0])"

definition trim :: "string \<Rightarrow> string" where
  "trim s = rev (dropWhile isWhiteSpace (rev (dropWhile isWhiteSpace s)))"

text \<open>\<open>s.includes(t)\<close>: \<open>t\<close> occurs in \<open>s\<close> as a contiguous block.\<close>

fun str_includes :: "string \<Rightarrow> string \<Rightarrow> bool" where
  "str_includes [] t = (t = [])"
| "str_includes (c # cs) t = (prefix t (c # cs) \<or> str_includes cs t)"

text \<open>\<open>s.substring(0, n)\<close>.\<close>

definition substring0 :: "string \<Rightarrow> nat \<Rightarrow> string" where
  "substring0 s n = take n s"

text \<open>\<open>xs.slice(-n)\<close>: the last \<open>n\<close> elements, all of them when there are fewer.\<close>

definition slice_last :: "nat \<Rightarrow> 'a list \<Rightarrow> 'a list" where
  "slice_last n xs = drop (length xs - n) xs"

fun truthy :: "string option \<Rightarrow> bool" where
  "truthy None = False"
| "truthy (Some s) = (s \<noteq> [])"

section \<open>Sessions and responses\<close>

record chat_entry =
  role :: string
  content :: string

text \<open>
  The part of \<open>req.session\<close> the handlers read: the identity that login stored and the
  chat history, which does not exist until the first chat request.
\<close>

record session =
  userUUID :: "string option"
  chatHistory :: "chat_entry list option"

text \<open>
  The documents of the \<open>User\<close> collection, as the Mongoose schemas declare them. Every
  subdocument carries the \<open>_id\<close> and the \<open>createdAt\<close> that Mongoose fills in. An
  ObjectId is its three parts: the seconds of its creation, the five bytes the process
  drew at its start, and the three-byte counter.
\<close>

datatype object_id = ObjectId nat nat nat

record note_doc =
  note_id :: object_id
  title :: string
  note_content :: string
  note_type :: string
  fileUrl :: string
  mimeType :: string
  note_createdAt :: nat

record chapter_doc =
  chapter_id :: object_id
  chapter_name :: string
  chapter_notes :: "note_doc list"
  chapter_createdAt :: nat

record subject_doc =
  subject_id :: object_id
  subject_name :: string
  chapters :: "chapter_doc list"
  subject_createdAt :: nat

record user_doc =
  uuid :: string
  user_createdAt :: nat
  subjects :: "subject_doc list"

text \<open>The JSON bodies the handlers send.\<close>

datatype body =
    Error string
  | ErrorDetails string string
  | ChatResponse string
  | Message string
  | SubjectsBody string "subject_doc list"
  | ChaptersBody string "chapter_doc list"
  | FileUploaded string string

record response =
  status :: nat
  body :: body

text \<open>\<open>requireAuth\<close>: the request goes on only with a truthy \<open>session.userUUID\<close>.\<close>

definition notAuthenticated :: response where
  "notAuthenticated = \<lparr>status = 401, body = Error ''Not authenticated. Please log in.''\<rparr>"

definition authenticated :: "session \<Rightarrow> bool" where
  "authenticated s = truthy (userUUID s)"

section \<open>The chat endpoint\<close>

text \<open>
  The Gemini handle of the server: the readiness flag and the model object. A call of
  the model (\<open>generateContent\<close>, then \<open>response.text()\<close>) either throws, \<open>Inl\<close> with
  the error's message, or yields a text, \<open>Inr\<close>.
\<close>

record gemini =
  geminiReady :: bool
  model :: "(string \<Rightarrow> string + string) option"

record chat_request =
  message :: "string option"
  notesContext :: "string option"

definition persona :: string where
  "persona = ''You are a friendly AI study buddy. Be encouraging and concise (2-3 sentences).\<newline>\<newline>''"

definition historyLine :: "chat_entry \<Rightarrow> string" where
  "historyLine msg = (if role msg = ''user'' then ''Student'' else ''AI'') @ '': '' @ content msg @ ''\<newline>''"

text \<open>
  The prompt, built the way the handler does: a string that grows by \<open>+=\<close>, the
  \<open>forEach\<close> over the recent history as a left fold.
\<close>

definition fullPrompt :: "string option \<Rightarrow> chat_entry list \<Rightarrow> string \<Rightarrow> string" where
  "fullPrompt nc history msg =
     (let p0 = persona;
          p1 = (case nc of
                  None \<Rightarrow> p0
                | Some c \<Rightarrow>
                    if c \<noteq> [] \<and> trim c \<noteq> []
                    then p0 @ ''Student's materials:\<newline>'' @ substring0 c 300 @ ''\<newline>\<newline>''
                    else p0);
          recentHistory = slice_last 6 history;
          p2 = (if length recentHistory > 0
                then foldl (\<lambda>p m. p @ historyLine m) (p1 @ ''Recent chat:\<newline>'') recentHistory
                else p1)
      in p2 @ ''Student: '' @ msg @ ''\<newline>AI Buddy:'')"

definition greetingResponse :: string where
  "greetingResponse = ''Hi there! I'm your AI study buddy! I'm here to help you learn and understand your materials better. What would you like to study today?''"

definition helpResponse :: string where
  "helpResponse = ''I can help you in many ways! I can explain concepts, quiz you on topics, break down complex ideas, and provide study tips. Just ask me anything about your subjects!''"

definition explainResponse :: "string option \<Rightarrow> string" where
  "explainResponse nc = ''Great question! '' @ (if truthy nc then ''Based on your notes, '' else '''') @ ''Let me break this down for you. This concept is fundamental - once you grasp it, everything becomes clearer! Would you like me to go deeper into any specific aspect?''"

definition quizResponse :: string where
  "quizResponse = ''Excellent! Testing yourself is one of the best ways to learn. Can you explain the main concept from your recent notes in your own words? This helps reinforce understanding!''"

definition difficultyResponse :: string where
  "difficultyResponse = ''Don't worry, that's completely normal! Let's break this down into smaller pieces. Which specific part is confusing? We'll tackle it step by step together!''"

definition examResponse :: string where
  "examResponse = ''Preparing for exams? Smart! Review regularly, practice explaining concepts aloud, and test yourself frequently. Focus on understanding, not memorizing. You've got this!''"

definition thanksResponse :: string where
  "thanksResponse = ''You're very welcome! I'm always here to help you succeed. Keep up the great work! Is there anything else you'd like to learn about?''"

definition defaultResponse :: "string option \<Rightarrow> string" where
  "defaultResponse nc = ''That's an interesting question! '' @ (if truthy nc then ''Looking at your study materials, '' else '''') @ ''The best approach is to break it down systematically. Can you tell me more about what you'd like to explore? I'm here to help!''"

text \<open>The \<open>if\<close>/\<open>else if\<close> chain of the handler, in its order.\<close>

definition fallbackResponse :: "string \<Rightarrow> string option \<Rightarrow> string" where
  "fallbackResponse msg nc =
     (let lowerMsg = toLowerCase msg in
      if str_includes lowerMsg ''hello'' \<or> str_includes lowerMsg ''hi'' \<or> str_includes lowerMsg ''hey''
        then greetingResponse
      else if str_includes lowerMsg ''help'' \<or> str_includes lowerMsg ''what can you''
        then helpResponse
      else if str_includes lowerMsg ''explain'' \<or> str_includes lowerMsg ''what is''
        then explainResponse nc
      else if str_includes lowerMsg ''quiz'' \<or> str_includes lowerMsg ''test''
        then quizResponse
      else if str_includes lowerMsg ''difficult'' \<or> str_includes lowerMsg ''hard'' \<or> str_includes lowerMsg ''don't understand''
        then difficultyResponse
      else if str_includes lowerMsg ''exam'' \<or> str_includes lowerMsg ''preparation''
        then examResponse
      else if str_includes lowerMsg ''thank''
        then thanksResponse
      else defaultResponse nc)"

text \<open>
  The Gemini attempt. \<open>aiResponse\<close> starts as the empty string; the attempt leaves it
  at the model's text, or at \<open>null\<close> (\<open>None\<close>) when the call throws; without a ready
  model it stays empty.
\<close>

definition tryGemini :: "gemini \<Rightarrow> string option \<Rightarrow> chat_entry list \<Rightarrow> string \<Rightarrow> string option" where
  "tryGemini g nc history msg =
     (case model g of
        None \<Rightarrow> Some []
      | Some generate \<Rightarrow>
          if geminiReady g
          then (case generate (fullPrompt nc history msg) of
                  Inl geminiError \<Rightarrow> None
                | Inr text \<Rightarrow> Some text)
          else Some [])"

text \<open>The history after the two pushes and the cut to the last ten entries.\<close>

definition saveToHistory :: "chat_entry list \<Rightarrow> string \<Rightarrow> string \<Rightarrow> chat_entry list" where
  "saveToHistory history msg aiResponse =
     (let h = history @ [\<lparr>role = ''user'', content = msg\<rparr>]
                      @ [\<lparr>role = ''assistant'', content = aiResponse\<rparr>]
      in if length h > 10 then slice_last 10 h else h)"

text \<open>
  \<open>POST /api/ai-buddy/chat\<close> behind \<open>requireAuth\<close>: the response and the session the
  request leaves behind.
\<close>

definition chat :: "gemini \<Rightarrow> chat_request \<Rightarrow> session \<Rightarrow> response \<times> session" where
  "chat g req s =
     (if \<not> authenticated s then (notAuthenticated, s)
      else case message req of
        None \<Rightarrow> (\<lparr>status = 400, body = Error ''Message is required''\<rparr>, s)
      | Some msg \<Rightarrow>
          if msg = [] \<or> trim msg = []
          then (\<lparr>status = 400, body = Error ''Message is required''\<rparr>, s)
          else
            let history = (case chatHistory s of None \<Rightarrow> [] | Some h \<Rightarrow> h);
                attempt = tryGemini g (notesContext req) history msg;
                aiResponse = (case attempt of
                                None \<Rightarrow> fallbackResponse msg (notesContext req)
                              | Some text \<Rightarrow>
                                  if text = [] then fallbackResponse msg (notesContext req)
                                  else text)
            in (\<lparr>status = 200, body = ChatResponse aiResponse\<rparr>,
                s\<lparr>chatHistory := Some (saveToHistory history msg aiResponse)\<rparr>))"

text \<open>\<open>POST /api/ai-buddy/clear-chat\<close> behind \<open>requireAuth\<close>.\<close>

definition clearChat :: "session \<Rightarrow> response \<times> session" where
  "clearChat s =
     (if \<not> authenticated s then (notAuthenticated, s)
      else (\<lparr>status = 200, body = Message ''Chat history cleared''\<rparr>, s\<lparr>chatHistory := Some []\<rparr>))"

text \<open>A session's life as a sequence of chat requests and clear-chat requests.\<close>

datatype chat_op = Chat gemini chat_request | ClearChat

fun chatStep :: "session \<Rightarrow> chat_op \<Rightarrow> session" where
  "chatStep s (Chat g req) = snd (chat g req s)"
| "chatStep s ClearChat = snd (clearChat s)"

definition runOps :: "chat_op list \<Rightarrow> session \<Rightarrow> session" where
  "runOps ops s = foldl chatStep s ops"

definition historyOf :: "session \<Rightarrow> chat_entry list" where
  "historyOf s = (case chatHistory s of None \<Rightarrow> [] | Some h \<Rightarrow> h)"

subsection \<open>The fallback as an ordered rule table\<close>

text \<open>
  The specification describes the fallback as an ordered list of keyword predicates of
  which the first match wins. \<open>spec_ladder\<close> is that table, with the keywords of the
  handler; \<open>spec_firstMatch\<close> walks it in order and ends in the default branch.
\<close>

datatype branch =
  Greeting | Help | Explanation | Quiz | Difficulty | ExamPrep | Thanks | Default

fun containsAny :: "string \<Rightarrow> string list \<Rightarrow> bool" where
  "containsAny m [] = False"
| "containsAny m (k # ks) = (str_includes m k \<or> containsAny m ks)"

definition spec_ladder :: "(string list \<times> branch) list" where
  "spec_ladder =
     [([''hello'', ''hi'', ''hey''], Greeting),
      ([''help'', ''what can you''], Help),
      ([''explain'', ''what is''], Explanation),
      ([''quiz'', ''test''], Quiz),
      ([''difficult'', ''hard'', ''don't understand''], Difficulty),
      ([''exam'', ''preparation''], ExamPrep),
      ([''thank''], Thanks)]"

fun spec_firstMatch :: "(string list \<times> branch) list \<Rightarrow> string \<Rightarrow> branch" where
  "spec_firstMatch [] m = Default"
| "spec_firstMatch ((ks, b) # rules) m =
     (if containsAny m ks then b else spec_firstMatch rules m)"

fun spec_branchResponse :: "branch \<Rightarrow> string option \<Rightarrow> string" where
  "spec_branchResponse Greeting nc = greetingResponse"
| "spec_branchResponse Help nc = helpResponse"
| "spec_branchResponse Explanation nc = explainResponse nc"
| "spec_branchResponse Quiz nc = quizResponse"
| "spec_branchResponse Difficulty nc = difficultyResponse"
| "spec_branchResponse ExamPrep nc = examResponse"
| "spec_branchResponse Thanks nc = thanksResponse"
| "spec_branchResponse Default nc = defaultResponse nc"

subsection \<open>The prompt as the specification describes it\<close>

text \<open>
  The four parts of the prompt in the specification's words: the persona, the notes
  context cut to 300 characters, the six most recent history entries one per line, the
  new message.
\<close>

fun spec_materials :: "string option \<Rightarrow> string" where
  "spec_materials None = []"
| "spec_materials (Some c) =
     (if trim c = [] then []
      else ''Student's materials:\<newline>'' @ take 300 c @ ''\<newline>\<newline>'')"

definition spec_recentChat :: "chat_entry list \<Rightarrow> string" where
  "spec_recentChat history =
     (if history = [] then []
      else ''Recent chat:\<newline>'' @ concat (map historyLine (drop (length history - 6) history)))"

definition spec_prompt :: "string option \<Rightarrow> chat_entry list \<Rightarrow> string \<Rightarrow> string" where
  "spec_prompt nc history msg =
     persona @ spec_materials nc @ spec_recentChat history @ ''Student: '' @ msg @ ''\<newline>AI Buddy:''"

section \<open>The note-tree endpoints\<close>

text \<open>
  The server's state beside the sessions: the \<open>User\<close> collection, keyed by \<open>uuid\<close>,
  the three globals of the storage setup, and the two values from which the process
  makes its ObjectIds: the five bytes it drew at its start and the running index. A
  bucket is its name and the objects it holds, each with its bytes and content type.
\<close>

record bucket_state =
  bucket_name :: string
  objects :: "string \<rightharpoonup> string \<times> string"

record server =
  users :: "string \<rightharpoonup> user_doc"
  gcpConfigured :: bool
  storage :: bool
  bucket :: "bucket_state option"
  processUnique :: nat
  objectIdIndex :: nat

text \<open>
  What one request gets from outside the handler: the clock reading of \<open>Date.now()\<close>,
  the seconds put into a new ObjectId and the \<open>createdAt\<close> default Mongoose gives a new
  subdocument, the cast of a request string to an ObjectId (\<open>None\<close> when the cast
  throws), whether the database read, the database write and the object write resolve,
  and the message of the error a rejected call throws. A \<open>save\<close> is rejected also when
  a validator of the schema fails, as for a required name that is empty after trimming.
\<close>

record env =
  now :: nat
  objectIdTime :: nat
  createdAtDefault :: nat
  castObjectId :: "string \<Rightarrow> object_id option"
  queryOk :: bool
  writeOk :: bool
  blobSaveOk :: bool
  thrown :: string

text \<open>
  A new subdocument gets its \<open>_id\<close> when it is built, before anything is written: the
  index moves on by one, modulo \<open>0xffffff\<close>, and the id is made of the seconds, the
  bytes of the process and the new index.
\<close>

definition getInc :: "server \<Rightarrow> nat" where
  "getInc st = (objectIdIndex st + 1) mod 0xffffff"

definition generateObjectId :: "env \<Rightarrow> server \<Rightarrow> object_id" where
  "generateObjectId e st = ObjectId (objectIdTime e) (processUnique st) (getInc st)"

definition generated :: "server \<Rightarrow> server" where
  "generated st = st\<lparr>objectIdIndex := getInc st\<rparr>"

text \<open>
  \<open>docs.id(x)\<close> casts \<open>x\<close> to an ObjectId and returns the first subdocument with that
  \<open>_id\<close>; it finds nothing when \<open>x\<close> is absent or the cast throws. A \<open>push\<close> on the
  subdocument found changes it in its parent: \<open>updateFirst\<close>.
\<close>

definition castId :: "(string \<Rightarrow> object_id option) \<Rightarrow> string option \<Rightarrow> object_id option" where
  "castId cast i = (case i of None \<Rightarrow> None | Some x \<Rightarrow> cast x)"

fun updateFirst :: "('a \<Rightarrow> bool) \<Rightarrow> ('a \<Rightarrow> 'a) \<Rightarrow> 'a list \<Rightarrow> 'a list" where
  "updateFirst P f [] = []"
| "updateFirst P f (x # xs) = (if P x then f x # xs else x # updateFirst P f xs)"

definition subjectById ::
  "(string \<Rightarrow> object_id option) \<Rightarrow> subject_doc list \<Rightarrow> string option \<Rightarrow> subject_doc option" where
  "subjectById cast xs i =
     (case castId cast i of None \<Rightarrow> None | Some oid \<Rightarrow> find (\<lambda>x. subject_id x = oid) xs)"

definition chapterById ::
  "(string \<Rightarrow> object_id option) \<Rightarrow> chapter_doc list \<Rightarrow> string option \<Rightarrow> chapter_doc option" where
  "chapterById cast xs i =
     (case castId cast i of None \<Rightarrow> None | Some oid \<Rightarrow> find (\<lambda>x. chapter_id x = oid) xs)"

text \<open>
  The user document after \<open>push\<close> on the chapters of the subject found, and on the notes
  of the chapter found in it; each is named by its own \<open>_id\<close>.
\<close>

definition pushChapter :: "user_doc \<Rightarrow> object_id \<Rightarrow> chapter_doc \<Rightarrow> user_doc" where
  "pushChapter user sid c =
     user\<lparr>subjects := updateFirst (\<lambda>x. subject_id x = sid)
                         (\<lambda>x. x\<lparr>chapters := chapters x @ [c]\<rparr>) (subjects user)\<rparr>"

definition pushNote :: "user_doc \<Rightarrow> object_id \<Rightarrow> object_id \<Rightarrow> note_doc \<Rightarrow> user_doc" where
  "pushNote user sid cid n =
     user\<lparr>subjects := updateFirst (\<lambda>x. subject_id x = sid)
                         (\<lambda>x. x\<lparr>chapters := updateFirst (\<lambda>y. chapter_id y = cid)
                                                  (\<lambda>y. y\<lparr>chapter_notes := chapter_notes y @ [n]\<rparr>) (chapters x)\<rparr>)
                         (subjects user)\<rparr>"

text \<open>\<open>POST /api/user/subjects\<close> behind \<open>requireAuth\<close>; \<open>name\<close> is the body's field.\<close>

definition createSubject :: "env \<Rightarrow> string option \<Rightarrow> session \<Rightarrow> server \<Rightarrow> response \<times> server" where
  "createSubject e name s st =
     (if \<not> authenticated s then (notAuthenticated, st)
      else if \<not> truthy name \<or> trim (the name) = []
      then (\<lparr>status = 400, body = Error ''Subject name required''\<rparr>, st)
      else
        let u = the (userUUID s);
            pushed = \<lparr>subject_id = generateObjectId e st, subject_name = trim (the name),
                      chapters = [], subject_createdAt = createdAtDefault e\<rparr>;
            st1 = generated st
        in if \<not> writeOk e
           then (\<lparr>status = 500, body = Error ''Server error''\<rparr>, st1)
           else
             let update = (case users st u of
                             None \<Rightarrow> \<lparr>uuid = u, user_createdAt = createdAtDefault e,
                                      subjects = [pushed]\<rparr>
                           | Some doc \<Rightarrow> doc\<lparr>subjects := subjects doc @ [pushed]\<rparr>)
             in (\<lparr>status = 201, body = SubjectsBody ''Subject created'' (subjects update)\<rparr>,
                 st1\<lparr>users := (users st)(u \<mapsto> update)\<rparr>))"

text \<open>\<open>POST /api/user/chapters\<close> behind \<open>requireAuth\<close>.\<close>

definition createChapter ::
  "env \<Rightarrow> string option \<Rightarrow> string option \<Rightarrow> session \<Rightarrow> server \<Rightarrow> response \<times> server" where
  "createChapter e subjectId name s st =
     (if \<not> authenticated s then (notAuthenticated, st)
      else if \<not> truthy subjectId \<or> \<not> truthy name
      then (\<lparr>status = 400, body = Error ''subjectId and name required''\<rparr>, st)
      else if \<not> queryOk e
      then (\<lparr>status = 500, body = Error ''Server error''\<rparr>, st)
      else case users st (the (userUUID s)) of
        None \<Rightarrow> (\<lparr>status = 404, body = Error ''User not found''\<rparr>, st)
      | Some user \<Rightarrow>
          (case subjectById (castObjectId e) (subjects user) subjectId of
             None \<Rightarrow> (\<lparr>status = 404, body = Error ''Subject not found''\<rparr>, st)
           | Some subj \<Rightarrow>
               let pushed = \<lparr>chapter_id = generateObjectId e st, chapter_name = trim (the name),
                             chapter_notes = [], chapter_createdAt = createdAtDefault e\<rparr>;
                   st1 = generated st
               in if \<not> writeOk e
                  then (\<lparr>status = 500, body = Error ''Server error''\<rparr>, st1)
                  else (\<lparr>status = 201,
                         body = ChaptersBody ''Chapter created'' (chapters subj @ [pushed])\<rparr>,
                        st1\<lparr>users := (users st)(the (userUUID s) \<mapsto>
                                         pushChapter user (subject_id subj) pushed)\<rparr>)))"

text \<open>
  \<open>POST /api/user/upload-note-file\<close> behind \<open>requireAuth\<close> and multer: the form fields
  and the file, if one was sent.
\<close>

record upload_file =
  originalname :: string
  mimetype :: string
  buffer :: string

record upload_request =
  req_subjectId :: "string option"
  req_chapterId :: "string option"
  req_title :: "string option"
  req_type :: "string option"
  req_content :: "string option"
  req_file :: "upload_file option"

text \<open>A number in a template literal: its decimal digits.\<close>

definition digitChar :: "nat \<Rightarrow> char" where
  "digitChar d = ''0123456789'' ! d"

fun numberToString :: "nat \<Rightarrow> string" where
  "numberToString n =
     (if n < 10 then [digitChar n] else numberToString (n div 10) @ [digitChar (n mod 10)])"

declare numberToString.simps [simp del]

definition gcsFileName :: "string \<Rightarrow> string \<Rightarrow> string \<Rightarrow> nat \<Rightarrow> string \<Rightarrow> string" where
  "gcsFileName userId subjectId chapterId millis original =
     userId @ ''/'' @ subjectId @ ''/'' @ chapterId @ ''/'' @ numberToString millis @ ''_'' @ original"

definition publicUrl :: "string \<Rightarrow> string \<Rightarrow> string" where
  "publicUrl bucketName blobName = ''https://storage.googleapis.com/'' @ bucketName @ ''/'' @ blobName"

definition orDefault :: "string option \<Rightarrow> string \<Rightarrow> string" where
  "orDefault field d = (case field of None \<Rightarrow> d | Some v \<Rightarrow> v)"

definition uploadFailed :: "env \<Rightarrow> response" where
  "uploadFailed e = \<lparr>status = 500, body = ErrorDetails ''Upload failed'' (thrown e)\<rparr>"

text \<open>The branch without a file: the note is pushed and the user document saved.\<close>

definition saveTextNote ::
  "env \<Rightarrow> string \<Rightarrow> user_doc \<Rightarrow> object_id \<Rightarrow> object_id \<Rightarrow> string \<Rightarrow> string \<Rightarrow> string
     \<Rightarrow> server \<Rightarrow> response \<times> server" where
  "saveTextNote e u user sid cid ttl ntype cont st =
     (let pushed = \<lparr>note_id = generateObjectId e st, title = trim ttl, note_content = cont,
                    note_type = ntype, fileUrl = [], mimeType = [],
                    note_createdAt = createdAtDefault e\<rparr>;
          st1 = generated st
      in if \<not> writeOk e then (uploadFailed e, st1)
         else (\<lparr>status = 201, body = Message ''Note saved''\<rparr>,
               st1\<lparr>users := (users st)(u \<mapsto> pushNote user sid cid pushed)\<rparr>))"

text \<open>
  The branch with a file: the storage check, the object write, and only then the push
  of the note with the object's URL and the save. The object is named by the ids as
  the request spells them. A rejected \<open>makePublic\<close> is swallowed by the handler and
  changes nothing here. When the save is rejected after the object write, the object
  stays in the bucket.
\<close>

definition saveFileNote ::
  "env \<Rightarrow> string \<Rightarrow> user_doc \<Rightarrow> object_id \<Rightarrow> object_id \<Rightarrow> string \<Rightarrow> string \<Rightarrow> string \<Rightarrow> string
     \<Rightarrow> string \<Rightarrow> upload_file \<Rightarrow> server \<Rightarrow> response \<times> server" where
  "saveFileNote e u user sid cid subjectId chapterId ttl ntype cont file st =
     (if \<not> gcpConfigured st \<or> \<not> storage st \<or> bucket st = None
      then (\<lparr>status = 500, body = Error ''Cloud storage not configured''\<rparr>, st)
      else
        let b = the (bucket st);
            blobName = gcsFileName u subjectId chapterId (now e) (originalname file)
        in if \<not> blobSaveOk e then (uploadFailed e, st)
           else
             let st1 = st\<lparr>bucket := Some (b\<lparr>objects :=
                           (objects b)(blobName \<mapsto> (buffer file, mimetype file))\<rparr>)\<rparr>;
                 url = publicUrl (bucket_name b) blobName;
                 pushed = \<lparr>note_id = generateObjectId e st,
                           title = (if ttl \<noteq> [] then ttl else originalname file),
                           note_content = cont, note_type = ntype, fileUrl = url,
                           mimeType = mimetype file,
                           note_createdAt = createdAtDefault e\<rparr>;
                 st2 = generated st1
             in if \<not> writeOk e then (uploadFailed e, st2)
                else (\<lparr>status = 201, body = FileUploaded ''File uploaded'' url\<rparr>,
                      st2\<lparr>users := (users st)(u \<mapsto> pushNote user sid cid pushed)\<rparr>))"

definition uploadNoteFile :: "env \<Rightarrow> upload_request \<Rightarrow> session \<Rightarrow> server \<Rightarrow> response \<times> server" where
  "uploadNoteFile e req s st =
     (if \<not> authenticated s then (notAuthenticated, st)
      else
        let u = the (userUUID s);
            ttl = orDefault (req_title req) [];
            ntype = orDefault (req_type req) ''notes'';
            cont = orDefault (req_content req) []
        in if req_file req = None \<and> ttl = []
           then (\<lparr>status = 400, body = Error ''Title or file required''\<rparr>, st)
           else if \<not> queryOk e then (uploadFailed e, st)
           else
             (case users st u of
                None \<Rightarrow> (\<lparr>status = 404, body = Error ''User not found''\<rparr>, st)
              | Some user \<Rightarrow>
                  (case subjectById (castObjectId e) (subjects user) (req_subjectId req) of
                     None \<Rightarrow> (\<lparr>status = 404, body = Error ''Subject not found''\<rparr>, st)
                   | Some subj \<Rightarrow>
                       (case chapterById (castObjectId e) (chapters subj) (req_chapterId req) of
                          None \<Rightarrow> (\<lparr>status = 404, body = Error ''Chapter not found''\<rparr>, st)
                        | Some chap \<Rightarrow>
                            (case req_file req of
                               None \<Rightarrow>
                                 saveTextNote e u user (subject_id subj) (chapter_id chap)
                                   ttl ntype cont st
                             | Some file \<Rightarrow>
                                 saveFileNote e u user (subject_id subj) (chapter_id chap)
                                   (the (req_subjectId req)) (the (req_chapterId req))
                                   ttl ntype cont file st)))))"

text \<open>The notes of one chapter of one user, by the same look-ups.\<close>

definition notesOf ::
  "(string \<Rightarrow> object_id option) \<Rightarrow> server \<Rightarrow> string \<Rightarrow> string \<Rightarrow> string
     \<Rightarrow> note_doc list option" where
  "notesOf cast st u sid cid =
     (case users st u of
        None \<Rightarrow> None
      | Some user \<Rightarrow>
          (case subjectById cast (subjects user) (Some sid) of
             None \<Rightarrow> None
           | Some subj \<Rightarrow>
               (case chapterById cast (chapters subj) (Some cid) of
                  None \<Rightarrow> None
                | Some chap \<Rightarrow> Some (chapter_notes chap))))"

text \<open>The subjects of a user; none without a profile.\<close>

definition subjectsOf :: "server \<Rightarrow> string \<Rightarrow> subject_doc list" where
  "subjectsOf st u = (case users st u of None \<Rightarrow> [] | Some user \<Rightarrow> subjects user)"

section \<open>Example values\<close>

definition failingModel :: "string \<Rightarrow> string + string" where
  "failingModel prompt = Inl ''fetch failed''"

definition silentModel :: "string \<Rightarrow> string + string" where
  "silentModel prompt = Inr []"

definition echoModel :: "string \<Rightarrow> string + string" where
  "echoModel prompt = Inr prompt"

text \<open>A session right after login, and six exchanges answered by the fallback.\<close>

definition freshSession :: session where
  "freshSession = \<lparr>userUUID = Some ''u1'', chatHistory = None\<rparr>"

definition exchange :: "string \<Rightarrow> chat_op" where
  "exchange m =
     Chat \<lparr>geminiReady = False, model = None\<rparr> \<lparr>message = Some m, notesContext = None\<rparr>"

definition sixExchanges :: "chat_op list" where
  "sixExchanges =
     [exchange ''one'', exchange ''two'', exchange ''three'', exchange ''four'',
      exchange ''five'', exchange ''six'']"

text \<open>
  A cast for the examples: a string of 24 hexadecimal digits, in either case, is the
  ObjectId whose first 8 digits are the seconds, next 10 the bytes of the process and
  last 6 the counter; every other string is refused.
\<close>

definition hexDigit :: "char \<Rightarrow> nat option" where
  "hexDigit c =
     map_of (zip ''0123456789abcdefABCDEF''
               [0, 1, 2, 3, 4, 5, 6, 7, 8, 9, 10, 11, 12, 13, 14, 15, 10, 11, 12, 13, 14, 15]) c"

fun hexValue :: "nat \<Rightarrow> string \<Rightarrow> nat option" where
  "hexValue acc [] = Some acc"
| "hexValue acc (c # cs) =
     (case hexDigit c of None \<Rightarrow> None | Some d \<Rightarrow> hexValue (16 * acc + d) cs)"

definition castHexString :: "string \<Rightarrow> object_id option" where
  "castHexString x =
     (if length x = 24
      then (case hexValue 0 (take 8 x) of
              None \<Rightarrow> None
            | Some t \<Rightarrow>
                (case hexValue 0 (take 10 (drop 8 x)) of
                   None \<Rightarrow> None
                 | Some p \<Rightarrow>
                     (case hexValue 0 (drop 18 x) of
                        None \<Rightarrow> None
                      | Some c \<Rightarrow> Some (ObjectId t p c))))
      else None)"

text \<open>A server with no profile and no storage, and a request environment in which
  every outside call resolves.\<close>

definition emptyServer :: server where
  "emptyServer =
     \<lparr>users = Map.empty, gcpConfigured = False, storage = False, bucket = None,
      processUnique = 171, objectIdIndex = 0\<rparr>"

definition envAt :: "nat \<Rightarrow> env" where
  "envAt t =
     \<lparr>now = t, objectIdTime = t div 1000, createdAtDefault = t,
      castObjectId = castHexString, queryOk = True, writeOk = True,
      blobSaveOk = True, thrown = []\<rparr>"

text \<open>A server on which user \<open>u1\<close> owns one subject with one chapter, the strings that
  name the two in a request, and the same server with a configured bucket.\<close>

definition biologyUser :: user_doc where
  "biologyUser =
     \<lparr>uuid = ''u1'', user_createdAt = 1,
      subjects = [\<lparr>subject_id = ObjectId 2 171 1, subject_name = ''Biology'',
                   chapters = [\<lparr>chapter_id = ObjectId 3 171 2, chapter_name = ''Cell Theory'',
                                chapter_notes = [], chapter_createdAt = 3\<rparr>],
                   subject_createdAt = 2\<rparr>]\<rparr>"

definition biologyId :: string where
  "biologyId = ''0000000200000000ab000001''"

definition biologyIdUpperCase :: string where
  "biologyIdUpperCase = ''0000000200000000AB000001''"

definition cellTheoryId :: string where
  "cellTheoryId = ''0000000300000000ab000002''"

definition unknownId :: string where
  "unknownId = ''0000000900000000ab000009''"

definition biologyServer :: server where
  "biologyServer =
     \<lparr>users = [''u1'' \<mapsto> biologyUser], gcpConfigured = False, storage = False, bucket = None,
      processUnique = 171, objectIdIndex = 2\<rparr>"

definition storageServer :: server where
  "storageServer =
     \<lparr>users = [''u1'' \<mapsto> biologyUser], gcpConfigured = True, storage = True,
      bucket = Some \<lparr>bucket_name = ''study-notes'', objects = Map.empty\<rparr>,
      processUnique = 171, objectIdIndex = 2\<rparr>"

text \<open>Upload requests for that chapter, and two files of one name.\<close>

definition uploadRequest :: "string option \<Rightarrow> upload_file option \<Rightarrow> upload_request" where
  "uploadRequest t f =
     \<lparr>req_subjectId = Some biologyId, req_chapterId = Some cellTheoryId, req_title = t,
      req_type = None, req_content = None, req_file = f\<rparr>"

definition pdfFile :: upload_file where
  "pdfFile = \<lparr>originalname = ''notes.pdf'', mimetype = ''application/pdf'', buffer = ''AAA''\<rparr>"

definition otherPdfFile :: upload_file where
  "otherPdfFile = \<lparr>originalname = ''notes.pdf'', mimetype = ''application/pdf'', buffer = ''BBB''\<rparr>"

text \<open>A request environment in which the object write is rejected.\<close>

definition envBlobFails :: "nat \<Rightarrow> env" where
  "envBlobFails t = (envAt t)\<lparr>blobSaveOk := False, thrown := ''socket hang up''\<rparr>"

section \<open>Properties of the chat endpoint\<close>

subsection \<open>Strings\<close>


lemma str_includes_sublist: "str_includes s t = sublist t s"
  by (induction s) (auto simp: sublist_Cons_right)

lemma str_includes_set: "str_includes s t \<Longrightarrow> set t \<subseteq> set s"
  by (simp add: str_includes_sublist set_mono_sublist)

lemma trim_Nil_iff: "trim s = [] \<longleftrightarrow> (\<forall>c\<in>set s. isWhiteSpace c)"
proof
  assume "trim s = []"
  then have "\<forall>c\<in>set (dropWhile isWhiteSpace s). isWhiteSpace c"
    by (simp add: trim_def)
  then have "dropWhile isWhiteSpace s = []"
    using hd_dropWhile[of isWhiteSpace s] by (cases "dropWhile isWhiteSpace s") auto
  then show "\<forall>c\<in>set s. isWhiteSpace c"
    by simp
next
  assume "\<forall>c\<in>set s. isWhiteSpace c"
  then show "trim s = []"
    by (auto simp: trim_def dest: set_dropWhileD)
qed

lemma toLowerChar_white: "isWhiteSpace c \<Longrightarrow> toLowerChar c = c"
  by (simp add: isWhiteSpace_def, elim disjE; simp add: toLowerChar_def upperCaseLetters_def lowerCaseLetters_def)

lemma lower_keyword_not_blank:
  assumes "str_includes (toLowerCase m) (k # ks)" and "\<not> isWhiteSpace k"
  shows "trim m \<noteq> []"
proof
  assume "trim m = []"
  then have ws: "\<forall>c\<in>set m. isWhiteSpace c" by (simp add: trim_Nil_iff)
  from assms(1) have "k \<in> set (toLowerCase m)"
    using str_includes_set by fastforce
  then obtain c where "c \<in> set m" "toLowerChar c = k"
    by (auto simp: toLowerCase_def)
  with ws assms(2) show False
    using toLowerChar_white by fastforce
qed

lemma trim_nonempty: "trim m \<noteq> [] \<Longrightarrow> m \<noteq> []"
  by (auto simp: trim_def)

lemma fallback_is_ladder:
  "fallbackResponse m nc = spec_branchResponse (spec_firstMatch spec_ladder (toLowerCase m)) nc"
  by (simp add: fallbackResponse_def spec_ladder_def Let_def)

lemma tryGemini_unavailable:
  "\<not> (geminiReady g \<and> model g \<noteq> None) \<Longrightarrow> tryGemini g nc h m = Some []"
  by (auto simp: tryGemini_def split: option.splits)

lemma chat_unavailable:
  assumes "authenticated s" and "\<not> (geminiReady g \<and> model g \<noteq> None)" and "trim m \<noteq> []"
  shows "fst (chat g \<lparr>message = Some m, notesContext = nc\<rparr> s) =
           \<lparr>status = 200, body = ChatResponse (fallbackResponse m nc)\<rparr>"
  using assms trim_nonempty[of m]
  by (simp add: chat_def tryGemini_unavailable Let_def)

lemma hello_not_blank: "trim ''hello'' \<noteq> []" "trim ''Can you quiz me?'' \<noteq> []" "trim ''I need help with a quiz'' \<noteq> []"
  by (simp_all add: trim_def isWhiteSpace_def)

text \<open>
  Claim C2. With no usable AI client, an authenticated chat request with a non-blank
  message answers 200 with the response of the first rule of the ordered table
  (greeting, help, explanation, quiz, difficulty, exam preparation, thanks, else the
  default) whose keywords occur in the lower-cased message: one branch per message,
  the earliest matching one. In particular \<open>hello\<close> gets the greeting,
  \<open>Can you quiz me?\<close> the quiz response, and \<open>I need help with a quiz\<close> the help
  response, not the quiz response.
\<close>

theorem chat_fallback_ladder:
  assumes "authenticated s" and "\<not> (geminiReady g \<and> model g \<noteq> None)" and "trim m \<noteq> []"
  shows "fst (chat g \<lparr>message = Some m, notesContext = nc\<rparr> s) =
           \<lparr>status = 200,
            body = ChatResponse (spec_branchResponse (spec_firstMatch spec_ladder (toLowerCase m)) nc)\<rparr>
       \<and> fst (chat g \<lparr>message = Some ''hello'', notesContext = nc\<rparr> s) =
           \<lparr>status = 200, body = ChatResponse greetingResponse\<rparr>
       \<and> fst (chat g \<lparr>message = Some ''Can you quiz me?'', notesContext = nc\<rparr> s) =
           \<lparr>status = 200, body = ChatResponse quizResponse\<rparr>
       \<and> fst (chat g \<lparr>message = Some ''I need help with a quiz'', notesContext = nc\<rparr> s) =
           \<lparr>status = 200, body = ChatResponse helpResponse\<rparr>"
proof -
  have a: "fallbackResponse ''hello'' nc = greetingResponse"
    by (simp add: fallbackResponse_def toLowerCase_def toLowerChar_def upperCaseLetters_def lowerCaseLetters_def)
  have b: "fallbackResponse ''Can you quiz me?'' nc = quizResponse"
    by (simp add: fallbackResponse_def toLowerCase_def toLowerChar_def upperCaseLetters_def lowerCaseLetters_def)
  have c: "fallbackResponse ''I need help with a quiz'' nc = helpResponse"
    by (simp add: fallbackResponse_def toLowerCase_def toLowerChar_def upperCaseLetters_def lowerCaseLetters_def)
  show ?thesis
    using chat_unavailable[OF assms(1,2)] assms(3) hello_not_blank a b c
    by (simp add: fallback_is_ladder)
qed


theorem chat_fallback_ladder_witness:
  "authenticated \<lparr>userUUID = Some ''u1'', chatHistory = None\<rparr>
   \<and> \<not> (geminiReady \<lparr>geminiReady = False, model = None\<rparr> \<and> model \<lparr>geminiReady = False, model = None\<rparr> \<noteq> None)
   \<and> trim ''What is the exam about?'' \<noteq> []
   \<and> fst (chat \<lparr>geminiReady = False, model = None\<rparr>
             \<lparr>message = Some ''What is the exam about?'', notesContext = Some ''Biology''\<rparr>
             \<lparr>userUUID = Some ''u1'', chatHistory = None\<rparr>) =
         \<lparr>status = 200, body = ChatResponse (explainResponse (Some ''Biology''))\<rparr>
   \<and> fst (chat \<lparr>geminiReady = False, model = None\<rparr>
             \<lparr>message = Some ''I need help with a quiz'', notesContext = Some ''Biology''\<rparr>
             \<lparr>userUUID = Some ''u1'', chatHistory = None\<rparr>) =
         \<lparr>status = 200, body = ChatResponse helpResponse\<rparr>"
proof -
  have h1: "authenticated \<lparr>userUUID = Some ''u1'', chatHistory = None\<rparr>"
    by (simp add: authenticated_def)
  have h2: "\<not> (geminiReady \<lparr>geminiReady = False, model = None\<rparr> \<and> model \<lparr>geminiReady = False, model = None\<rparr> \<noteq> None)"
    by simp
  have h3: "trim ''What is the exam about?'' \<noteq> []"
    by (simp add: trim_def isWhiteSpace_def)
  have l: "spec_firstMatch spec_ladder (toLowerCase ''What is the exam about?'') = Explanation"
    by (simp add: spec_ladder_def toLowerCase_def toLowerChar_def upperCaseLetters_def lowerCaseLetters_def)
  from chat_fallback_ladder [OF h1 h2 h3, of "Some ''Biology''"] h1 h2 h3 l
  show ?thesis by simp
qed

text \<open>
  Claim C9. The greeting test is substring containment: with no usable AI client,
  every message whose lower-cased text contains \<open>hello\<close>, \<open>hi\<close> or \<open>hey\<close> anywhere,
  also inside a word such as \<open>this\<close> or \<open>think\<close>, gets the greeting response, whatever
  keywords of the later branches it contains.
\<close>

theorem greeting_substring_precedence:
  assumes "authenticated s" and "\<not> (geminiReady g \<and> model g \<noteq> None)"
    and "str_includes (toLowerCase m) ''hello'' \<or> str_includes (toLowerCase m) ''hi''
         \<or> str_includes (toLowerCase m) ''hey''"
  shows "fst (chat g \<lparr>message = Some m, notesContext = nc\<rparr> s) =
           \<lparr>status = 200, body = ChatResponse greetingResponse\<rparr>"
proof -
  have "\<not> isWhiteSpace (CHR ''h'')"
    by (simp add: isWhiteSpace_def)
  with assms(3) have "trim m \<noteq> []"
    using lower_keyword_not_blank by blast
  moreover from assms(3) have "fallbackResponse m nc = greetingResponse"
    by (simp add: fallbackResponse_def)
  ultimately show ?thesis
    using chat_unavailable[OF assms(1,2)] by simp
qed

theorem greeting_substring_precedence_witness:
  "authenticated \<lparr>userUUID = Some ''u1'', chatHistory = None\<rparr>
   \<and> \<not> (geminiReady \<lparr>geminiReady = False, model = None\<rparr> \<and> model \<lparr>geminiReady = False, model = None\<rparr> \<noteq> None)
   \<and> str_includes (toLowerCase ''I THINK this quiz is hard, please help'') ''hi''
   \<and> fst (chat \<lparr>geminiReady = False, model = None\<rparr>
             \<lparr>message = Some ''I THINK this quiz is hard, please help'', notesContext = None\<rparr>
             \<lparr>userUUID = Some ''u1'', chatHistory = None\<rparr>) =
         \<lparr>status = 200, body = ChatResponse greetingResponse\<rparr>"
proof -
  have h1: "authenticated \<lparr>userUUID = Some ''u1'', chatHistory = None\<rparr>"
    by (simp add: authenticated_def)
  have h2: "\<not> (geminiReady \<lparr>geminiReady = False, model = None\<rparr> \<and> model \<lparr>geminiReady = False, model = None\<rparr> \<noteq> None)"
    by simp
  have h3: "str_includes (toLowerCase ''I THINK this quiz is hard, please help'') ''hi''"
    by (simp add: toLowerCase_def toLowerChar_def upperCaseLetters_def lowerCaseLetters_def)
  from greeting_substring_precedence [OF h1 h2, of "''I THINK this quiz is hard, please help''" None] h1 h2 h3
  show ?thesis by simp
qed

lemma length_slice_last: "length (slice_last n xs) = min n (length xs)"
  by (simp add: slice_last_def)

lemma saveToHistory_slice:
  "saveToHistory h m r =
     slice_last 10 (h @ [\<lparr>role = ''user'', content = m\<rparr>, \<lparr>role = ''assistant'', content = r\<rparr>])"
  by (simp add: saveToHistory_def slice_last_def Let_def)

lemma length_saveToHistory: "length (saveToHistory h m r) = min 10 (length h + 2)"
  by (simp add: saveToHistory_slice length_slice_last)

lemma chat_history_cases:
  "historyOf (snd (chat g req s)) = historyOf s
   \<or> (\<exists>m r. historyOf (snd (chat g req s)) = saveToHistory (historyOf s) m r)"
  by (auto simp: chat_def historyOf_def Let_def split: option.splits)

lemma chatStep_bounded:
  "length (historyOf s) \<le> 10 \<Longrightarrow> length (historyOf (chatStep s op)) \<le> 10"
proof (cases op)
  case (Chat g req)
  assume "length (historyOf s) \<le> 10"
  with chat_history_cases[of g req s] Chat show ?thesis
    by (auto simp: length_saveToHistory)
next
  case ClearChat
  assume "length (historyOf s) \<le> 10"
  with ClearChat show ?thesis
    by (simp add: clearChat_def historyOf_def)
qed

lemma runOps_bounded:
  "length (historyOf s) \<le> 10 \<Longrightarrow> length (historyOf (runOps ops s)) \<le> 10"
  unfolding runOps_def
  by (induction ops arbitrary: s) (simp_all add: chatStep_bounded)

lemma chat_ok:
  assumes "authenticated s" and "trim m \<noteq> []"
  shows "\<exists>r. chat g \<lparr>message = Some m, notesContext = nc\<rparr> s =
           (\<lparr>status = 200, body = ChatResponse r\<rparr>,
            s\<lparr>chatHistory := Some (saveToHistory (historyOf s) m r)\<rparr>)
         \<and> (r = fallbackResponse m nc \<or> tryGemini g nc (historyOf s) m = Some r)"
  using assms trim_nonempty[of m]
  by (auto simp: chat_def historyOf_def Let_def split: option.splits)


subsection \<open>History and the Gemini path\<close>


text \<open>
  Claim C3. Whatever sequence of chat and clear-chat requests a session with at most
  ten history entries (a fresh one has none) goes through, its history never holds more
  than ten entries: the history after an exchange is the last ten entries of the old
  history followed by the user message and the response. Clear-chat on an
  authenticated session leaves the empty history, and one exchange after it leaves
  exactly two entries.
\<close>

theorem chat_history_bounded:
  assumes "length (historyOf s) \<le> 10" and "authenticated t" and "trim m \<noteq> []"
  shows "length (historyOf (runOps ops s)) \<le> 10
       \<and> saveToHistory h m r =
           slice_last 10 (h @ [\<lparr>role = ''user'', content = m\<rparr>, \<lparr>role = ''assistant'', content = r\<rparr>])
       \<and> chatHistory (snd (clearChat t)) = Some []
       \<and> length (historyOf (snd (chat g \<lparr>message = Some m, notesContext = nc\<rparr> (snd (clearChat t))))) = 2"
proof -
  let ?c = "snd (clearChat t)"
  have c: "chatHistory ?c = Some []" and a: "authenticated ?c"
    using assms(2) by (simp_all add: clearChat_def authenticated_def)
  from chat_ok[OF a assms(3), of g nc] c
  have "length (historyOf (snd (chat g \<lparr>message = Some m, notesContext = nc\<rparr> ?c))) = 2"
    by (auto simp: historyOf_def length_saveToHistory)
  with c runOps_bounded[OF assms(1)] show ?thesis
    by (simp add: saveToHistory_slice)
qed

lemmas chat_eval = runOps_def sixExchanges_def exchange_def freshSession_def chat_def authenticated_def
      trim_def isWhiteSpace_def tryGemini_def saveToHistory_def slice_last_def historyOf_def clearChat_def Let_def

theorem chat_history_bounded_witness:
  "length (historyOf freshSession) \<le> 10
   \<and> authenticated (runOps sixExchanges freshSession)
   \<and> trim ''seven'' \<noteq> []
   \<and> length (historyOf (runOps sixExchanges freshSession)) = 10
   \<and> chatHistory (runOps (sixExchanges @ [ClearChat]) freshSession) = Some []
   \<and> length (historyOf (runOps (sixExchanges @ [ClearChat, exchange ''seven'']) freshSession)) = 2"
proof -
  have h1: "length (historyOf freshSession) \<le> 10"
    by (simp add: historyOf_def freshSession_def)
  have h2: "authenticated (runOps sixExchanges freshSession)"
    by (simp add: chat_eval)
  have h3: "trim ''seven'' \<noteq> []"
    by (simp add: trim_def isWhiteSpace_def)
  have ten: "length (historyOf (runOps sixExchanges freshSession)) = 10"
    by (simp add: chat_eval)
  from chat_history_bounded [OF h1 h2 h3, of sixExchanges "[]" "[]" "\<lparr>geminiReady = False, model = None\<rparr>" None]
    h1 h2 h3 ten
  show ?thesis
    by (simp add: runOps_def exchange_def)
qed

text \<open>
  Claim C8. An authenticated chat request with a non-blank message always answers 200
  with a response, whatever the Gemini handle does: when the model call throws, the
  response is the fallback response. The user message and the response, in this order,
  are the last two entries of the history the request leaves behind, whichever path
  produced the response.
\<close>

theorem chat_recovers_from_gemini_failure:
  assumes "authenticated s" and "trim m \<noteq> []"
  shows "\<exists>r. chat g \<lparr>message = Some m, notesContext = nc\<rparr> s =
               (\<lparr>status = 200, body = ChatResponse r\<rparr>,
                s\<lparr>chatHistory := Some (saveToHistory (historyOf s) m r)\<rparr>)
           \<and> slice_last 2 (saveToHistory (historyOf s) m r) =
               [\<lparr>role = ''user'', content = m\<rparr>, \<lparr>role = ''assistant'', content = r\<rparr>]
           \<and> (\<forall>generate e. geminiReady g \<and> model g = Some generate
                  \<and> generate (fullPrompt nc (historyOf s) m) = Inl e
                \<longrightarrow> r = fallbackResponse m nc)"
proof -
  from chat_ok[OF assms, of g nc] obtain r where
    r: "chat g \<lparr>message = Some m, notesContext = nc\<rparr> s =
           (\<lparr>status = 200, body = ChatResponse r\<rparr>,
            s\<lparr>chatHistory := Some (saveToHistory (historyOf s) m r)\<rparr>)"
    and d: "r = fallbackResponse m nc \<or> tryGemini g nc (historyOf s) m = Some r"
    by blast
  have "slice_last 2 (saveToHistory (historyOf s) m r) =
          [\<lparr>role = ''user'', content = m\<rparr>, \<lparr>role = ''assistant'', content = r\<rparr>]"
    by (simp add: saveToHistory_def slice_last_def Let_def)
  moreover have "\<forall>generate e. geminiReady g \<and> model g = Some generate
                  \<and> generate (fullPrompt nc (historyOf s) m) = Inl e
                \<longrightarrow> r = fallbackResponse m nc"
    using d by (auto simp: tryGemini_def)
  ultimately show ?thesis using r by blast
qed


theorem chat_recovers_from_gemini_failure_witness:
  "authenticated freshSession \<and> trim ''What is osmosis?'' \<noteq> []
   \<and> geminiReady \<lparr>geminiReady = True, model = Some failingModel\<rparr>
   \<and> failingModel (fullPrompt None (historyOf freshSession) ''What is osmosis?'') = Inl ''fetch failed''
   \<and> chat \<lparr>geminiReady = True, model = Some failingModel\<rparr>
          \<lparr>message = Some ''What is osmosis?'', notesContext = None\<rparr> freshSession =
       (\<lparr>status = 200, body = ChatResponse (explainResponse None)\<rparr>,
        freshSession\<lparr>chatHistory :=
          Some [\<lparr>role = ''user'', content = ''What is osmosis?''\<rparr>,
                \<lparr>role = ''assistant'', content = explainResponse None\<rparr>]\<rparr>)"
proof -
  have h1: "authenticated freshSession"
    by (simp add: authenticated_def freshSession_def)
  have h2: "trim ''What is osmosis?'' \<noteq> []"
    by (simp add: trim_def isWhiteSpace_def)
  have f: "fallbackResponse ''What is osmosis?'' None = explainResponse None"
    by (simp add: fallbackResponse_def toLowerCase_def toLowerChar_def upperCaseLetters_def lowerCaseLetters_def)
  have e: "saveToHistory (historyOf freshSession) ''What is osmosis?'' (explainResponse None) =
             [\<lparr>role = ''user'', content = ''What is osmosis?''\<rparr>,
              \<lparr>role = ''assistant'', content = explainResponse None\<rparr>]"
    by (simp add: saveToHistory_def historyOf_def freshSession_def)
  from chat_recovers_from_gemini_failure
         [OF h1 h2, of "\<lparr>geminiReady = True, model = Some failingModel\<rparr>" None]
  obtain r where
    r: "chat \<lparr>geminiReady = True, model = Some failingModel\<rparr>
          \<lparr>message = Some ''What is osmosis?'', notesContext = None\<rparr> freshSession =
        (\<lparr>status = 200, body = ChatResponse r\<rparr>,
         freshSession\<lparr>chatHistory := Some (saveToHistory (historyOf freshSession) ''What is osmosis?'' r)\<rparr>)"
    and "\<forall>generate e. geminiReady \<lparr>geminiReady = True, model = Some failingModel\<rparr>
            \<and> model \<lparr>geminiReady = True, model = Some failingModel\<rparr> = Some generate
            \<and> generate (fullPrompt None (historyOf freshSession) ''What is osmosis?'') = Inl e
          \<longrightarrow> r = fallbackResponse ''What is osmosis?'' None"
    by blast
  then have "r = explainResponse None"
    using f by (simp add: failingModel_def)
  with r e h1 h2 show ?thesis
    by (simp add: failingModel_def)
qed

lemma fold_historyLines:
  "foldl (\<lambda>p m. p @ historyLine m) acc hs = acc @ concat (map historyLine hs)"
  by (induction hs arbitrary: acc) simp_all

lemma fullPrompt_spec: "fullPrompt nc h m = spec_prompt nc h m"
proof -
  have "slice_last 6 h = [] \<longleftrightarrow> h = []"
    by (cases h) (auto simp: slice_last_def)
  then show ?thesis
    by (cases nc)
       (auto simp: fullPrompt_def spec_prompt_def spec_recentChat_def substring0_def
          fold_historyLines slice_last_def Let_def dest: trim_nonempty)
qed

text \<open>
  Claim C5, amended. With a ready model, the prompt is the persona, then (for a
  non-blank notes context) the materials block with the first 300 characters of the
  context, then (for a non-empty history) the block of the six most recent entries, one
  line \<open>Student: content\<close> for an entry of role \<open>user\<close> and \<open>AI: content\<close> for any
  other, then the new message. When the model answers that prompt with a text, the chat
  request answers 200 with that text if it is non-empty, and with the fallback response
  if it is empty.
\<close>

theorem chat_gemini_prompt:
  assumes "authenticated s" and "trim m \<noteq> []"
    and "geminiReady g" and "model g = Some generate"
    and "generate (fullPrompt nc (historyOf s) m) = Inr text"
  shows "fst (chat g \<lparr>message = Some m, notesContext = nc\<rparr> s) =
           \<lparr>status = 200,
            body = ChatResponse (if text = [] then fallbackResponse m nc else text)\<rparr>
       \<and> fullPrompt nc (historyOf s) m =
           persona
           @ (case nc of
                None \<Rightarrow> []
              | Some c \<Rightarrow>
                  if trim c = [] then []
                  else ''Student's materials:\<newline>'' @ take 300 c @ ''\<newline>\<newline>'')
           @ (if historyOf s = [] then []
              else ''Recent chat:\<newline>'' @ concat (map historyLine (slice_last 6 (historyOf s))))
           @ ''Student: '' @ m @ ''\<newline>AI Buddy:''
       \<and> historyLine \<lparr>role = ''user'', content = c\<rparr> = ''Student: '' @ c @ ''\<newline>''
       \<and> (r \<noteq> ''user'' \<longrightarrow>
            historyLine \<lparr>role = r, content = c\<rparr> = ''AI: '' @ c @ ''\<newline>'')"
proof -
  have "fst (chat g \<lparr>message = Some m, notesContext = nc\<rparr> s) =
          \<lparr>status = 200,
           body = ChatResponse (if text = [] then fallbackResponse m nc else text)\<rparr>"
    using assms trim_nonempty[of m]
    by (simp add: chat_def tryGemini_def historyOf_def Let_def)
  moreover have "spec_materials nc =
      (case nc of
         None \<Rightarrow> []
       | Some c \<Rightarrow>
           if trim c = [] then []
           else ''Student's materials:\<newline>'' @ take 300 c @ ''\<newline>\<newline>'')"
    by (cases nc) simp_all
  ultimately show ?thesis
    by (simp add: fullPrompt_spec spec_prompt_def spec_recentChat_def slice_last_def
        historyLine_def)
qed

theorem chat_gemini_prompt_witness:
  "authenticated \<lparr>userUUID = Some ''u1'', chatHistory = Some [\<lparr>role = ''user'', content = ''hi''\<rparr>, \<lparr>role = ''assistant'', content = ''Hello!''\<rparr>]\<rparr>
   \<and> trim ''What is osmosis?'' \<noteq> []
   \<and> geminiReady \<lparr>geminiReady = True, model = Some echoModel\<rparr>
   \<and> ''assistant'' \<noteq> ''user''
   \<and> fst (chat \<lparr>geminiReady = True, model = Some echoModel\<rparr>
             \<lparr>message = Some ''What is osmosis?'', notesContext = Some ''Biology''\<rparr>
             \<lparr>userUUID = Some ''u1'', chatHistory = Some [\<lparr>role = ''user'', content = ''hi''\<rparr>, \<lparr>role = ''assistant'', content = ''Hello!''\<rparr>]\<rparr>) =
       \<lparr>status = 200, body = ChatResponse
          (persona @ ''Student's materials:\<newline>Biology\<newline>\<newline>Recent chat:\<newline>Student: hi\<newline>AI: Hello!\<newline>Student: What is osmosis?\<newline>AI Buddy:'')\<rparr>
   \<and> historyLine \<lparr>role = ''assistant'', content = ''Hello!''\<rparr> = ''AI: Hello!\<newline>''
   \<and> silentModel (fullPrompt (Some ''Biology'') [] ''What is osmosis?'') = Inr []
   \<and> fst (chat \<lparr>geminiReady = True, model = Some silentModel\<rparr>
             \<lparr>message = Some ''What is osmosis?'', notesContext = Some ''Biology''\<rparr>
             freshSession) =
       \<lparr>status = 200, body = ChatResponse (explainResponse (Some ''Biology''))\<rparr>"
proof -
  let ?s = "\<lparr>userUUID = Some ''u1'', chatHistory = Some [\<lparr>role = ''user'', content = ''hi''\<rparr>, \<lparr>role = ''assistant'', content = ''Hello!''\<rparr>]\<rparr>"
  let ?p = "fullPrompt (Some ''Biology'') (historyOf ?s) ''What is osmosis?''"
  let ?q = "fullPrompt (Some ''Biology'') (historyOf freshSession) ''What is osmosis?''"
  have h1: "authenticated ?s" and h1': "authenticated freshSession"
    by (simp_all add: authenticated_def freshSession_def)
  have h2: "trim ''What is osmosis?'' \<noteq> []"
    by (simp add: trim_def isWhiteSpace_def)
  have h3: "geminiReady \<lparr>geminiReady = True, model = Some echoModel\<rparr>"
    and h4: "model \<lparr>geminiReady = True, model = Some echoModel\<rparr> = Some echoModel"
    and h3': "geminiReady \<lparr>geminiReady = True, model = Some silentModel\<rparr>"
    and h4': "model \<lparr>geminiReady = True, model = Some silentModel\<rparr> = Some silentModel"
    by simp_all
  have h5: "echoModel ?p = Inr ?p" and h5': "silentModel ?q = Inr []"
    by (simp_all add: echoModel_def silentModel_def)
  have p: "?p = persona @ ''Student's materials:\<newline>Biology\<newline>\<newline>Recent chat:\<newline>Student: hi\<newline>AI: Hello!\<newline>Student: What is osmosis?\<newline>AI Buddy:''"
    by (simp add: fullPrompt_def historyOf_def slice_last_def historyLine_def substring0_def
        trim_def isWhiteSpace_def Let_def)
  then have h6: "?p \<noteq> []"
    by (simp add: persona_def)
  have f: "fallbackResponse ''What is osmosis?'' (Some ''Biology'') = explainResponse (Some ''Biology'')"
    by (simp add: fallbackResponse_def toLowerCase_def toLowerChar_def upperCaseLetters_def
        lowerCaseLetters_def)
  from chat_gemini_prompt [OF h1 h2 h3 h4 h5, where r = "''assistant''" and c = "''Hello!''"] h6 p
  have A: "fst (chat \<lparr>geminiReady = True, model = Some echoModel\<rparr>
             \<lparr>message = Some ''What is osmosis?'', notesContext = Some ''Biology''\<rparr> ?s) =
       \<lparr>status = 200, body = ChatResponse
          (persona @ ''Student's materials:\<newline>Biology\<newline>\<newline>Recent chat:\<newline>Student: hi\<newline>AI: Hello!\<newline>Student: What is osmosis?\<newline>AI Buddy:'')\<rparr>"
    and B: "historyLine \<lparr>role = ''assistant'', content = ''Hello!''\<rparr> = ''AI: Hello!\<newline>''"
    by simp_all
  from chat_gemini_prompt [OF h1' h2 h3' h4' h5'] f
  have C: "fst (chat \<lparr>geminiReady = True, model = Some silentModel\<rparr>
             \<lparr>message = Some ''What is osmosis?'', notesContext = Some ''Biology''\<rparr>
             freshSession) =
       \<lparr>status = 200, body = ChatResponse (explainResponse (Some ''Biology''))\<rparr>"
    by simp
  have q: "silentModel (fullPrompt (Some ''Biology'') [] ''What is osmosis?'') = Inr []"
    by (simp add: silentModel_def)
  from A B C q h1 h2 h3 show ?thesis
    by simp
qed

text \<open>
  Claim C5 as stated fails when the model succeeds with the empty text: the request
  for \<open>hello\<close> then answers with the greeting fallback, not with the model's output.
  Nor is the stored role what a history line starts with: an entry of role \<open>user\<close>
  appears as \<open>Student: ...\<close>. And a blank notes context is left out of the prompt.
\<close>

theorem chat_gemini_empty_text_counterexample:
  "geminiReady \<lparr>geminiReady = True, model = Some silentModel\<rparr>
   \<and> silentModel (fullPrompt None (historyOf freshSession) ''hello'') = Inr []
   \<and> fst (chat \<lparr>geminiReady = True, model = Some silentModel\<rparr>
             \<lparr>message = Some ''hello'', notesContext = None\<rparr> freshSession) =
       \<lparr>status = 200, body = ChatResponse greetingResponse\<rparr>
   \<and> greetingResponse \<noteq> []
   \<and> \<not> str_includes
         (fullPrompt None [\<lparr>role = ''user'', content = ''osmosis''\<rparr>] ''hello'')
         ''user: osmosis''
   \<and> str_includes
         (fullPrompt None [\<lparr>role = ''user'', content = ''osmosis''\<rparr>] ''hello'')
         ''Student: osmosis''
   \<and> fullPrompt (Some ''   '') [] ''hello'' = persona @ ''Student: hello\<newline>AI Buddy:''"
  by (simp add: silentModel_def chat_def tryGemini_def freshSession_def authenticated_def
      trim_def isWhiteSpace_def fallbackResponse_def toLowerCase_def toLowerChar_def upperCaseLetters_def lowerCaseLetters_def
      greetingResponse_def fullPrompt_def persona_def historyLine_def slice_last_def Let_def)


section \<open>Properties of the note-tree endpoints\<close>


lemma find_updateFirst_same:
  assumes "\<And>x. P (f x) = P x"
  shows "find P (updateFirst P f xs) = map_option f (find P xs)"
  using assms by (induction xs) auto

lemma find_updateFirst_other:
  assumes "\<And>x. P x \<Longrightarrow> \<not> Q x \<and> \<not> Q (f x)"
  shows "find Q (updateFirst P f xs) = find Q xs"
  using assms by (induction xs) auto

lemma map_updateFirst:
  assumes "\<And>x. g (f x) = g x"
  shows "map g (updateFirst P f xs) = map g xs"
  using assms by (induction xs) auto

lemma find_SomeD: "find P xs = Some x \<Longrightarrow> P x"
  by (induction xs) (auto split: if_splits)

lemma subjectById_SomeD:
  assumes "subjectById cast xs i = Some subj"
  shows "castId cast i = Some (subject_id subj)"
    and "find (\<lambda>x. subject_id x = subject_id subj) xs = Some subj"
  using assms find_SomeD[of "\<lambda>x. subject_id x = the (castId cast i)" xs subj]
  by (auto simp: subjectById_def split: option.splits)

lemma chapterById_SomeD:
  assumes "chapterById cast xs i = Some chap"
  shows "castId cast i = Some (chapter_id chap)"
    and "find (\<lambda>x. chapter_id x = chapter_id chap) xs = Some chap"
  using assms find_SomeD[of "\<lambda>x. chapter_id x = the (castId cast i)" xs chap]
  by (auto simp: chapterById_def split: option.splits)

lemma subjectById_pushChapter:
  assumes "subjectById cast (subjects user) i = Some subj"
  shows "subjectById cast (subjects (pushChapter user (subject_id subj) c)) i =
           Some (subj\<lparr>chapters := chapters subj @ [c]\<rparr>)"
  using subjectById_SomeD[OF assms]
  by (simp add: subjectById_def pushChapter_def find_updateFirst_same)

lemma subjectById_pushChapter_other:
  assumes "castId cast other \<noteq> Some oid"
  shows "subjectById cast (subjects (pushChapter user oid c)) other =
           subjectById cast (subjects user) other"
proof (cases "castId cast other")
  case None
  then show ?thesis by (simp add: subjectById_def)
next
  case (Some o')
  with assms have "o' \<noteq> oid" by simp
  then have "find (\<lambda>x. subject_id x = o')
               (updateFirst (\<lambda>x. subject_id x = oid) (\<lambda>x. x\<lparr>chapters := chapters x @ [c]\<rparr>)
                  (subjects user)) =
             find (\<lambda>x. subject_id x = o') (subjects user)"
    by (intro find_updateFirst_other) auto
  with Some show ?thesis
    by (simp add: subjectById_def pushChapter_def)
qed

lemma notesOf_pushNote:
  assumes "users st u = Some user"
    and "subjectById cast (subjects user) (Some sid) = Some subj"
    and "chapterById cast (chapters subj) (Some cid) = Some chap"
    and "users st' = (users st)(u \<mapsto> pushNote user (subject_id subj) (chapter_id chap) n)"
  shows "notesOf cast st' u sid cid = Some (chapter_notes chap @ [n])"
  using assms subjectById_SomeD[OF assms(2)] chapterById_SomeD[OF assms(3)]
  by (simp add: notesOf_def subjectById_def chapterById_def pushNote_def find_updateFirst_same)

lemma notesOf_bucket [simp]: "notesOf cast (st\<lparr>bucket := b\<rparr>) u sid cid = notesOf cast st u sid cid"
  by (simp add: notesOf_def)

lemma notesOf_index [simp]:
  "notesOf cast (st\<lparr>objectIdIndex := k\<rparr>) u sid cid = notesOf cast st u sid cid"
  by (simp add: notesOf_def)

lemma notesOf_SomeD:
  assumes "notesOf cast st u sid cid = Some ns"
  obtains user subj chap where "users st u = Some user"
    and "subjectById cast (subjects user) (Some sid) = Some subj"
    and "chapterById cast (chapters subj) (Some cid) = Some chap"
    and "chapter_notes chap = ns"
  using assms by (auto simp: notesOf_def split: option.splits)

lemma succ_mod_neq:
  fixes x :: nat
  assumes "2 \<le> M" and "x < M"
  shows "(x + 1) mod M \<noteq> x"
proof (cases "x + 1 < M")
  case True
  then show ?thesis by simp
next
  case False
  with assms have "x + 1 = M" by simp
  then have "(x + 1) mod M = 0" by simp
  moreover from \<open>x + 1 = M\<close> assms(1) have "x \<noteq> 0" by auto
  ultimately show ?thesis by simp
qed

lemma getInc_generated: "getInc (generated st) \<noteq> getInc st"
proof -
  have "getInc st < 0xffffff"
    by (simp add: getInc_def)
  then have "(getInc st + 1) mod 0xffffff \<noteq> getInc st"
    by (intro succ_mod_neq) simp_all
  then show ?thesis
    by (simp add: getInc_def generated_def)
qed

lemma generateObjectId_next:
  "processUnique st' = processUnique st \<Longrightarrow> objectIdIndex st' = getInc st \<Longrightarrow>
   generateObjectId e' st' \<noteq> generateObjectId e st"
  using getInc_generated[of st]
  by (simp add: generateObjectId_def getInc_def generated_def)

lemma createSubject_invalid:
  assumes "authenticated s" and "name = None \<or> trim (the name) = []"
  shows "createSubject e name s st = (\<lparr>status = 400, body = Error ''Subject name required''\<rparr>, st)"
  using assms by (cases name) (auto simp: createSubject_def)

lemma createSubject_ok:
  assumes "userUUID s = Some u" and "u \<noteq> []" and "trim n \<noteq> []" and "writeOk e"
  shows "createSubject e (Some n) s st =
           (\<lparr>status = 201, body = SubjectsBody ''Subject created''
               (subjectsOf st u @ [\<lparr>subject_id = generateObjectId e st, subject_name = trim n,
                                    chapters = [], subject_createdAt = createdAtDefault e\<rparr>])\<rparr>,
            st\<lparr>objectIdIndex := getInc st, users := (users st)(u \<mapsto>
               (case users st u of
                  None \<Rightarrow> \<lparr>uuid = u, user_createdAt = createdAtDefault e, subjects = []\<rparr>
                | Some doc \<Rightarrow> doc)
               \<lparr>subjects := subjectsOf st u @
                   [\<lparr>subject_id = generateObjectId e st, subject_name = trim n,
                     chapters = [], subject_createdAt = createdAtDefault e\<rparr>]\<rparr>)\<rparr>)"
  using assms trim_nonempty[of n]
  by (auto simp: createSubject_def authenticated_def subjectsOf_def generated_def Let_def
      split: option.splits)

lemma subjectsOf_createSubject:
  assumes "userUUID s = Some u" and "u \<noteq> []" and "trim n \<noteq> []" and "writeOk e"
  shows "subjectsOf (snd (createSubject e (Some n) s st)) u =
           subjectsOf st u @ [\<lparr>subject_id = generateObjectId e st, subject_name = trim n,
                                chapters = [], subject_createdAt = createdAtDefault e\<rparr>]"
  by (simp add: createSubject_ok[OF assms] subjectsOf_def)

lemma generator_createSubject:
  assumes "userUUID s = Some u" and "u \<noteq> []" and "trim n \<noteq> []" and "writeOk e"
  shows "processUnique (snd (createSubject e (Some n) s st)) = processUnique st"
    and "objectIdIndex (snd (createSubject e (Some n) s st)) = getInc st"
  by (simp_all add: createSubject_ok[OF assms])

lemma trim_Math: "trim ''Math'' = ''Math''"
  by (simp add: trim_def isWhiteSpace_def)

text \<open>
  Claim C4. For an authenticated user, create-subject answers 400 and changes nothing
  when the name is missing, empty or blank, the no-break space counting as blank. With
  a non-blank name and a write that succeeds, it answers 201 with the user's subjects
  followed by the new subject, named by the trimmed name; for a user without a profile
  that creates the profile with this one subject. Two requests for \<open>Math\<close>, one after
  the other, leave two subjects of that name at the end of the list; each carries the
  ObjectId generated for it, and the two ids differ, because the second is made from
  the index the first left behind.
\<close>

theorem createSubject_upsert_duplicates:
  assumes "userUUID s = Some u" and "u \<noteq> []"
    and "trim n \<noteq> []" and "writeOk e" and "writeOk e'"
  shows "createSubject e None s st = (\<lparr>status = 400, body = Error ''Subject name required''\<rparr>, st)
       \<and> createSubject e (Some []) s st = (\<lparr>status = 400, body = Error ''Subject name required''\<rparr>, st)
       \<and> createSubject e (Some ''   '') s st = (\<lparr>status = 400, body = Error ''Subject name required''\<rparr>, st)
       \<and> createSubject e (Some [CHR 0xA0, CHR 0x09]) s st =
            (\<lparr>status = 400, body = Error ''Subject name required''\<rparr>, st)
       \<and> (trim blank = [] \<longrightarrow>
            createSubject e (Some blank) s st = (\<lparr>status = 400, body = Error ''Subject name required''\<rparr>, st))
       \<and> (users st u = None \<longrightarrow>
            createSubject e (Some n) s st =
              (\<lparr>status = 201, body = SubjectsBody ''Subject created''
                  [\<lparr>subject_id = generateObjectId e st, subject_name = trim n,
                    chapters = [], subject_createdAt = createdAtDefault e\<rparr>]\<rparr>,
               st\<lparr>objectIdIndex := getInc st, users := (users st)(u \<mapsto>
                  \<lparr>uuid = u, user_createdAt = createdAtDefault e,
                   subjects = [\<lparr>subject_id = generateObjectId e st, subject_name = trim n,
                                chapters = [], subject_createdAt = createdAtDefault e\<rparr>]\<rparr>)\<rparr>))
       \<and> fst (createSubject e (Some n) s st) =
            \<lparr>status = 201, body = SubjectsBody ''Subject created''
               (subjectsOf st u @ [\<lparr>subject_id = generateObjectId e st, subject_name = trim n,
                                    chapters = [], subject_createdAt = createdAtDefault e\<rparr>])\<rparr>
       \<and> subjectsOf (snd (createSubject e (Some n) s st)) u =
            subjectsOf st u @ [\<lparr>subject_id = generateObjectId e st, subject_name = trim n,
                                 chapters = [], subject_createdAt = createdAtDefault e\<rparr>]
       \<and> (\<exists>first second.
             fst (createSubject e' (Some ''Math'') s (snd (createSubject e (Some ''Math'') s st))) =
               \<lparr>status = 201, body = SubjectsBody ''Subject created''
                  (subjectsOf st u @ [first, second])\<rparr>
           \<and> subjectsOf
                (snd (createSubject e' (Some ''Math'') s (snd (createSubject e (Some ''Math'') s st)))) u =
               subjectsOf st u @ [first, second]
           \<and> subject_name first = ''Math'' \<and> subject_name second = ''Math''
           \<and> subject_id first = generateObjectId e st
           \<and> subject_id second = generateObjectId e' (snd (createSubject e (Some ''Math'') s st))
           \<and> subject_id first \<noteq> subject_id second
           \<and> first \<noteq> second)"
proof -
  have auth: "authenticated s"
    using assms(1,2) by (simp add: authenticated_def)
  have bad: "\<And>b. trim b = [] \<Longrightarrow>
      createSubject e (Some b) s st = (\<lparr>status = 400, body = Error ''Subject name required''\<rparr>, st)"
    using createSubject_invalid[OF auth] by simp
  have blank: "trim ''   '' = []" "trim [] = []" "trim [CHR 0xA0, CHR 0x09] = []"
    by (simp_all add: trim_def isWhiteSpace_def)
  have none: "createSubject e None s st = (\<lparr>status = 400, body = Error ''Subject name required''\<rparr>, st)"
    using createSubject_invalid[OF auth] by simp
  have first: "users st u = None \<longrightarrow>
            createSubject e (Some n) s st =
              (\<lparr>status = 201, body = SubjectsBody ''Subject created''
                  [\<lparr>subject_id = generateObjectId e st, subject_name = trim n,
                    chapters = [], subject_createdAt = createdAtDefault e\<rparr>]\<rparr>,
               st\<lparr>objectIdIndex := getInc st, users := (users st)(u \<mapsto>
                  \<lparr>uuid = u, user_createdAt = createdAtDefault e,
                   subjects = [\<lparr>subject_id = generateObjectId e st, subject_name = trim n,
                                chapters = [], subject_createdAt = createdAtDefault e\<rparr>]\<rparr>)\<rparr>)"
    by (simp add: createSubject_ok[OF assms(1,2,3,4)] subjectsOf_def)
  have math: "trim ''Math'' \<noteq> []"
    by (simp add: trim_Math)
  let ?st1 = "snd (createSubject e (Some ''Math'') s st)"
  let ?a = "\<lparr>subject_id = generateObjectId e st, subject_name = ''Math'',
             chapters = [], subject_createdAt = createdAtDefault e\<rparr>"
  let ?b = "\<lparr>subject_id = generateObjectId e' ?st1, subject_name = ''Math'',
             chapters = [], subject_createdAt = createdAtDefault e'\<rparr>"
  have one: "subjectsOf ?st1 u = subjectsOf st u @ [?a]"
    by (simp add: subjectsOf_createSubject[OF assms(1,2) math assms(4)] trim_Math)
  have r2: "fst (createSubject e' (Some ''Math'') s ?st1) =
      \<lparr>status = 201, body = SubjectsBody ''Subject created'' (subjectsOf st u @ [?a, ?b])\<rparr>"
    by (simp add: createSubject_ok[OF assms(1,2) math assms(5)] one trim_Math)
  have s2: "subjectsOf (snd (createSubject e' (Some ''Math'') s ?st1)) u = subjectsOf st u @ [?a, ?b]"
    by (simp add: subjectsOf_createSubject[OF assms(1,2) math assms(5)] one trim_Math)
  have ne: "generateObjectId e st \<noteq> generateObjectId e' ?st1"
    using generateObjectId_next[OF generator_createSubject[OF assms(1,2) math assms(4)], of e' st e]
    by simp
  then have "?a \<noteq> ?b"
    by simp
  with r2 s2 ne have twice: "\<exists>first second.
             fst (createSubject e' (Some ''Math'') s ?st1) =
               \<lparr>status = 201, body = SubjectsBody ''Subject created''
                  (subjectsOf st u @ [first, second])\<rparr>
           \<and> subjectsOf (snd (createSubject e' (Some ''Math'') s ?st1)) u =
               subjectsOf st u @ [first, second]
           \<and> subject_name first = ''Math'' \<and> subject_name second = ''Math''
           \<and> subject_id first = generateObjectId e st
           \<and> subject_id second = generateObjectId e' ?st1
           \<and> subject_id first \<noteq> subject_id second
           \<and> first \<noteq> second"
    by (intro exI[of _ ?a] exI[of _ ?b]) simp
  show ?thesis
    using none bad blank first twice
      createSubject_ok[OF assms(1,2,3,4), of st] subjectsOf_createSubject[OF assms(1,2,3,4), of st]
    by simp
qed


lemma cast_examples:
  "castHexString biologyId = Some (ObjectId 2 171 1)"
  "castHexString biologyIdUpperCase = Some (ObjectId 2 171 1)"
  "castHexString cellTheoryId = Some (ObjectId 3 171 2)"
  "castHexString unknownId = Some (ObjectId 9 171 9)"
  by (simp_all add: castHexString_def hexDigit_def biologyId_def biologyIdUpperCase_def
      cellTheoryId_def unknownId_def)

theorem createSubject_upsert_duplicates_witness:
  "userUUID freshSession = Some ''u1'' \<and> ''u1'' \<noteq> [] \<and> trim '' Biology '' \<noteq> []
   \<and> writeOk (envAt 5000) \<and> writeOk (envAt 6000)
   \<and> users emptyServer ''u1'' = None \<and> trim [CHR 0xA0, CHR 0x20] = []
   \<and> createSubject (envAt 5000) (Some [CHR 0xA0, CHR 0x20]) freshSession emptyServer =
        (\<lparr>status = 400, body = Error ''Subject name required''\<rparr>, emptyServer)
   \<and> fst (createSubject (envAt 5000) (Some '' Biology '') freshSession emptyServer) =
        \<lparr>status = 201, body = SubjectsBody ''Subject created''
           [\<lparr>subject_id = ObjectId 5 171 1, subject_name = ''Biology'', chapters = [],
             subject_createdAt = 5000\<rparr>]\<rparr>
   \<and> users (snd (createSubject (envAt 5000) (Some '' Biology '') freshSession emptyServer)) ''u1'' =
        Some \<lparr>uuid = ''u1'', user_createdAt = 5000,
              subjects = [\<lparr>subject_id = ObjectId 5 171 1, subject_name = ''Biology'', chapters = [],
                           subject_createdAt = 5000\<rparr>]\<rparr>
   \<and> fst (createSubject (envAt 6000) (Some ''Math'') freshSession
            (snd (createSubject (envAt 5000) (Some ''Math'') freshSession emptyServer))) =
        \<lparr>status = 201, body = SubjectsBody ''Subject created''
           [\<lparr>subject_id = ObjectId 5 171 1, subject_name = ''Math'', chapters = [],
             subject_createdAt = 5000\<rparr>,
            \<lparr>subject_id = ObjectId 6 171 2, subject_name = ''Math'', chapters = [],
             subject_createdAt = 6000\<rparr>]\<rparr>"
proof -
  have h1: "userUUID freshSession = Some ''u1''" and h2: "''u1'' \<noteq> []"
    by (simp_all add: freshSession_def)
  have h3: "trim '' Biology '' \<noteq> []" and b: "trim '' Biology '' = ''Biology''"
    and bl: "trim [CHR 0xA0, CHR 0x20] = []"
    by (simp_all add: trim_def isWhiteSpace_def)
  have h4: "writeOk (envAt 5000)" and h5: "writeOk (envAt 6000)"
    by (simp_all add: envAt_def)
  have n: "users emptyServer ''u1'' = None" "subjectsOf emptyServer ''u1'' = []"
    by (simp_all add: emptyServer_def subjectsOf_def)
  have tm: "objectIdTime (envAt 5000) = 5" "objectIdTime (envAt 6000) = 6"
    by (simp_all add: envAt_def)
  have g1: "generateObjectId (envAt 5000) emptyServer = ObjectId 5 171 1"
    by (simp add: generateObjectId_def getInc_def emptyServer_def tm)
  have c: "createdAtDefault (envAt 5000) = 5000" "createdAtDefault (envAt 6000) = 6000"
    by (simp_all add: envAt_def)
  from createSubject_upsert_duplicates [OF h1 h2 h3 h4 h5, of emptyServer "[CHR 0xA0, CHR 0x20]"]
  have A: "createSubject (envAt 5000) (Some [CHR 0xA0, CHR 0x20]) freshSession emptyServer =
        (\<lparr>status = 400, body = Error ''Subject name required''\<rparr>, emptyServer)"
    and B: "fst (createSubject (envAt 5000) (Some '' Biology '') freshSession emptyServer) =
        \<lparr>status = 201, body = SubjectsBody ''Subject created''
           [\<lparr>subject_id = ObjectId 5 171 1, subject_name = ''Biology'', chapters = [],
             subject_createdAt = 5000\<rparr>]\<rparr>"
    and C: "users (snd (createSubject (envAt 5000) (Some '' Biology '') freshSession emptyServer)) ''u1'' =
        Some \<lparr>uuid = ''u1'', user_createdAt = 5000,
              subjects = [\<lparr>subject_id = ObjectId 5 171 1, subject_name = ''Biology'', chapters = [],
                           subject_createdAt = 5000\<rparr>]\<rparr>"
    using n b bl g1 c by auto
  have E: "fst (createSubject (envAt 6000) (Some ''Math'') freshSession
            (snd (createSubject (envAt 5000) (Some ''Math'') freshSession emptyServer))) =
        \<lparr>status = 201, body = SubjectsBody ''Subject created''
           [\<lparr>subject_id = ObjectId 5 171 1, subject_name = ''Math'', chapters = [],
             subject_createdAt = 5000\<rparr>,
            \<lparr>subject_id = ObjectId 6 171 2, subject_name = ''Math'', chapters = [],
             subject_createdAt = 6000\<rparr>]\<rparr>"
    by (simp add: createSubject_ok[OF h1 h2 _ h5] createSubject_ok[OF h1 h2 _ h4] trim_Math
        subjectsOf_def emptyServer_def c tm generateObjectId_def getInc_def)
  from A B C E h1 h2 h3 h4 h5 n bl show ?thesis
    by simp
qed


lemma createChapter_invalid:
  assumes "authenticated s" and "\<not> truthy subjectId \<or> \<not> truthy name"
  shows "createChapter e subjectId name s st =
           (\<lparr>status = 400, body = Error ''subjectId and name required''\<rparr>, st)"
  using assms by (auto simp: createChapter_def)

lemma createChapter_found:
  assumes "userUUID s = Some u" and "u \<noteq> []" and "sid \<noteq> []" and "n \<noteq> []"
    and "queryOk e" and "writeOk e"
    and "users st u = Some user"
    and "subjectById (castObjectId e) (subjects user) (Some sid) = Some subj"
  shows "createChapter e (Some sid) (Some n) s st =
           (\<lparr>status = 201, body = ChaptersBody ''Chapter created''
               (chapters subj @ [\<lparr>chapter_id = generateObjectId e st, chapter_name = trim n,
                                   chapter_notes = [], chapter_createdAt = createdAtDefault e\<rparr>])\<rparr>,
            st\<lparr>objectIdIndex := getInc st,
               users := (users st)(u \<mapsto> pushChapter user (subject_id subj)
                 \<lparr>chapter_id = generateObjectId e st, chapter_name = trim n,
                  chapter_notes = [], chapter_createdAt = createdAtDefault e\<rparr>)\<rparr>)"
  using assms by (simp add: createChapter_def authenticated_def generated_def Let_def)

text \<open>
  Claim C6, amended. For an authenticated user, create-chapter first answers 400 when
  \<open>subjectId\<close> or \<open>name\<close> is missing or empty; otherwise 404 when the user has no
  profile, and 404 when \<open>id\<close> finds no subject of the user for the request's
  \<open>subjectId\<close>; otherwise, when the save succeeds, 201 with the chapters of the subject
  found followed by the new chapter, named by the trimmed name. The stored profile then
  has the new chapter in that subject, every request id that casts to another ObjectId
  finds what it found before, and every other user is as before.
\<close>

theorem createChapter_checks_in_order:
  assumes "userUUID s = Some u" and "u \<noteq> []"
  shows "(\<not> truthy subjectId \<or> \<not> truthy name \<longrightarrow>
            createChapter e subjectId name s st =
              (\<lparr>status = 400, body = Error ''subjectId and name required''\<rparr>, st))
       \<and> (sid \<noteq> [] \<and> n \<noteq> [] \<and> queryOk e \<and> users st u = None \<longrightarrow>
            createChapter e (Some sid) (Some n) s st =
              (\<lparr>status = 404, body = Error ''User not found''\<rparr>, st))
       \<and> (sid \<noteq> [] \<and> n \<noteq> [] \<and> queryOk e \<and> users st u = Some user
            \<and> subjectById (castObjectId e) (subjects user) (Some sid) = None \<longrightarrow>
            createChapter e (Some sid) (Some n) s st =
              (\<lparr>status = 404, body = Error ''Subject not found''\<rparr>, st))
       \<and> (sid \<noteq> [] \<and> n \<noteq> [] \<and> queryOk e \<and> writeOk e \<and> users st u = Some user
            \<and> subjectById (castObjectId e) (subjects user) (Some sid) = Some subj \<longrightarrow>
            fst (createChapter e (Some sid) (Some n) s st) =
              \<lparr>status = 201, body = ChaptersBody ''Chapter created''
                 (chapters subj @ [\<lparr>chapter_id = generateObjectId e st, chapter_name = trim n,
                                     chapter_notes = [], chapter_createdAt = createdAtDefault e\<rparr>])\<rparr>
            \<and> (\<exists>user'. users (snd (createChapter e (Some sid) (Some n) s st)) u = Some user'
                 \<and> subjectById (castObjectId e) (subjects user') (Some sid) =
                     Some (subj\<lparr>chapters := chapters subj @
                            [\<lparr>chapter_id = generateObjectId e st, chapter_name = trim n,
                              chapter_notes = [], chapter_createdAt = createdAtDefault e\<rparr>]\<rparr>)
                 \<and> (\<forall>cast other. castId cast other \<noteq> castObjectId e sid \<longrightarrow>
                       subjectById cast (subjects user') other =
                       subjectById cast (subjects user) other)
                 \<and> map subject_id (subjects user') = map subject_id (subjects user))
            \<and> (\<forall>v. v \<noteq> u \<longrightarrow>
                  users (snd (createChapter e (Some sid) (Some n) s st)) v = users st v))"
proof -
  have auth: "authenticated s"
    using assms by (simp add: authenticated_def)
  have a: "\<not> truthy subjectId \<or> \<not> truthy name \<longrightarrow>
            createChapter e subjectId name s st =
              (\<lparr>status = 400, body = Error ''subjectId and name required''\<rparr>, st)"
    using createChapter_invalid[OF auth] by blast
  have b: "sid \<noteq> [] \<and> n \<noteq> [] \<and> queryOk e \<and> users st u = None \<longrightarrow>
            createChapter e (Some sid) (Some n) s st =
              (\<lparr>status = 404, body = Error ''User not found''\<rparr>, st)"
    using assms auth by (simp add: createChapter_def)
  have c: "sid \<noteq> [] \<and> n \<noteq> [] \<and> queryOk e \<and> users st u = Some user
            \<and> subjectById (castObjectId e) (subjects user) (Some sid) = None \<longrightarrow>
            createChapter e (Some sid) (Some n) s st =
              (\<lparr>status = 404, body = Error ''Subject not found''\<rparr>, st)"
    using assms auth by (simp add: createChapter_def)
  have d: "map subject_id (subjects (pushChapter user oid ch)) = map subject_id (subjects user)"
    for oid ch
    by (simp add: pushChapter_def map_updateFirst)
  have e: "subjectById (castObjectId e) (subjects user) (Some sid) = Some subj \<Longrightarrow>
           castObjectId e sid = Some (subject_id subj)"
    using subjectById_SomeD(1)[of "castObjectId e" "subjects user" "Some sid" subj]
    by (simp add: castId_def)
  show ?thesis
    using a b c d e
    by (auto simp: createChapter_found[OF assms] subjectById_pushChapter
        subjectById_pushChapter_other)
qed

theorem createChapter_checks_in_order_witness:
  "userUUID freshSession = Some ''u1'' \<and> ''u1'' \<noteq> []
   \<and> \<not> truthy None
   \<and> createChapter (envAt 7000) None (Some ''Genetics'') freshSession biologyServer =
        (\<lparr>status = 400, body = Error ''subjectId and name required''\<rparr>, biologyServer)
   \<and> users emptyServer ''u1'' = None
   \<and> createChapter (envAt 7000) (Some biologyId) (Some ''Genetics'') freshSession emptyServer =
        (\<lparr>status = 404, body = Error ''User not found''\<rparr>, emptyServer)
   \<and> users biologyServer ''u1'' = Some biologyUser
   \<and> subjectById castHexString (subjects biologyUser) (Some unknownId) = None
   \<and> createChapter (envAt 7000) (Some unknownId) (Some ''Genetics'') freshSession biologyServer =
        (\<lparr>status = 404, body = Error ''Subject not found''\<rparr>, biologyServer)
   \<and> subjectById castHexString (subjects biologyUser) (Some biologyIdUpperCase) =
        Some (hd (subjects biologyUser))
   \<and> queryOk (envAt 7000) \<and> writeOk (envAt 7000)
   \<and> fst (createChapter (envAt 7000) (Some biologyIdUpperCase) (Some [CHR 0xA0, CHR ''G'', CHR ''e'', CHR ''n'', CHR ''e'', CHR ''s'', CHR 0x20])
            freshSession biologyServer) =
        \<lparr>status = 201, body = ChaptersBody ''Chapter created''
           [\<lparr>chapter_id = ObjectId 3 171 2, chapter_name = ''Cell Theory'', chapter_notes = [],
             chapter_createdAt = 3\<rparr>,
            \<lparr>chapter_id = ObjectId 7 171 3, chapter_name = ''Genes'', chapter_notes = [],
             chapter_createdAt = 7000\<rparr>]\<rparr>"
proof -
  let ?name = "[CHR 0xA0, CHR ''G'', CHR ''e'', CHR ''n'', CHR ''e'', CHR ''s'', CHR 0x20]"
  have h1: "userUUID freshSession = Some ''u1''" and h2: "''u1'' \<noteq> []"
    by (simp_all add: freshSession_def)
  have e: "queryOk (envAt 7000)" "writeOk (envAt 7000)" "castObjectId (envAt 7000) = castHexString"
    "createdAtDefault (envAt 7000) = 7000"
    by (simp_all add: envAt_def)
  have n: "users emptyServer ''u1'' = None"
    by (simp add: emptyServer_def)
  have u: "users biologyServer ''u1'' = Some biologyUser"
    by (simp add: biologyServer_def)
  have z: "subjectById castHexString (subjects biologyUser) (Some unknownId) = None"
    by (simp add: subjectById_def castId_def cast_examples biologyUser_def)
  have f: "subjectById castHexString (subjects biologyUser) (Some biologyIdUpperCase) =
             Some (hd (subjects biologyUser))"
    by (simp add: subjectById_def castId_def cast_examples biologyUser_def)
  have t: "trim ?name = ''Genes''"
    by (simp add: trim_def isWhiteSpace_def)
  have c: "chapters (hd (subjects biologyUser)) =
             [\<lparr>chapter_id = ObjectId 3 171 2, chapter_name = ''Cell Theory'', chapter_notes = [],
               chapter_createdAt = 3\<rparr>]"
    by (simp add: biologyUser_def)
  have g: "generateObjectId (envAt 7000) biologyServer = ObjectId 7 171 3"
    by (simp add: generateObjectId_def getInc_def biologyServer_def envAt_def)
  have ne: "biologyId \<noteq> []" "unknownId \<noteq> []" "biologyIdUpperCase \<noteq> []"
    by (simp_all add: biologyId_def unknownId_def biologyIdUpperCase_def)
  from createChapter_checks_in_order [OF h1 h2, of None "Some ''Genetics''"
      "envAt 7000" biologyServer biologyIdUpperCase ?name biologyUser "hd (subjects biologyUser)"]
  have A: "createChapter (envAt 7000) None (Some ''Genetics'') freshSession biologyServer =
        (\<lparr>status = 400, body = Error ''subjectId and name required''\<rparr>, biologyServer)"
    and D: "fst (createChapter (envAt 7000) (Some biologyIdUpperCase) (Some ?name) freshSession biologyServer) =
        \<lparr>status = 201, body = ChaptersBody ''Chapter created''
           [\<lparr>chapter_id = ObjectId 3 171 2, chapter_name = ''Cell Theory'', chapter_notes = [],
             chapter_createdAt = 3\<rparr>,
            \<lparr>chapter_id = ObjectId 7 171 3, chapter_name = ''Genes'', chapter_notes = [],
             chapter_createdAt = 7000\<rparr>]\<rparr>"
    using e u f t c g ne by simp_all
  from createChapter_checks_in_order [OF h1 h2, of None None
      "envAt 7000" emptyServer biologyId "''Genetics''"]
  have B: "createChapter (envAt 7000) (Some biologyId) (Some ''Genetics'') freshSession emptyServer =
        (\<lparr>status = 404, body = Error ''User not found''\<rparr>, emptyServer)"
    using e n ne by simp
  from createChapter_checks_in_order [OF h1 h2, of None None
      "envAt 7000" biologyServer unknownId "''Genetics''" biologyUser]
  have C: "createChapter (envAt 7000) (Some unknownId) (Some ''Genetics'') freshSession biologyServer =
        (\<lparr>status = 404, body = Error ''Subject not found''\<rparr>, biologyServer)"
    using e u z ne by simp
  from A B C D h1 h2 e n u z f show ?thesis
    by simp
qed

text \<open>
  Claim C6 as stated fails on the order of the checks. A request with a name but no
  \<open>subjectId\<close>, from a user with a profile, matches no subject and yet answers 400, not
  404; and a request without a name from a user without a profile answers 400, not 404.
\<close>

theorem createChapter_missing_subjectId_counterexample:
  "authenticated freshSession
   \<and> users biologyServer ''u1'' = Some biologyUser
   \<and> subjectById castHexString (subjects biologyUser) None = None
   \<and> createChapter (envAt 7000) None (Some ''Genetics'') freshSession biologyServer =
        (\<lparr>status = 400, body = Error ''subjectId and name required''\<rparr>, biologyServer)
   \<and> users emptyServer ''u1'' = None
   \<and> createChapter (envAt 7000) (Some biologyId) None freshSession emptyServer =
        (\<lparr>status = 400, body = Error ''subjectId and name required''\<rparr>, emptyServer)"
  by (simp add: createChapter_def authenticated_def freshSession_def biologyServer_def
      emptyServer_def subjectById_def castId_def)


subsection \<open>The upload endpoint\<close>

lemma digitChar_inj: "a < 10 \<Longrightarrow> b < 10 \<Longrightarrow> digitChar a = digitChar b \<Longrightarrow> a = b"
proof -
  assume "a < 10" "b < 10" "digitChar a = digitChar b"
  moreover have "distinct ''0123456789''" by simp
  ultimately show "a = b"
    unfolding digitChar_def by (simp add: nth_eq_iff_index_eq)
qed

lemma digitChar_digit: "d < 10 \<Longrightarrow> digitChar d \<in> set ''0123456789''"
  unfolding digitChar_def by (rule nth_mem) simp

lemma numberToString_digits: "set (numberToString n) \<subseteq> set ''0123456789''"
proof (induction n rule: numberToString.induct)
  case (1 n)
  show ?case
  proof (cases "n < 10")
    case True
    then show ?thesis
      using digitChar_digit[of n] by (subst numberToString.simps) simp
  next
    case False
    with 1 digitChar_digit[of "n mod 10"] show ?thesis
      by (subst numberToString.simps) simp
  qed
qed

lemma numberToString_nonempty: "numberToString n \<noteq> []"
  by (subst numberToString.simps) simp

lemma numberToString_inj: "numberToString a = numberToString b \<Longrightarrow> a = b"
proof (induction a arbitrary: b rule: numberToString.induct)
  case (1 a)
  show ?case
  proof (cases "a < 10")
    case True
    show ?thesis
    proof (cases "b < 10")
      case True
      with \<open>a < 10\<close> 1(2) show ?thesis
        by (simp add: numberToString.simps[of a] numberToString.simps[of b] digitChar_inj)
    next
      case False
      with \<open>a < 10\<close> 1(2) numberToString_nonempty[of "b div 10"] show ?thesis
        by (simp add: numberToString.simps[of a] numberToString.simps[of b])
    qed
  next
    case False
    show ?thesis
    proof (cases "b < 10")
      case True
      with False 1(2) numberToString_nonempty[of "a div 10"] show ?thesis
        by (simp add: numberToString.simps[of a] numberToString.simps[of b])
    next
      case bf: False
      with False 1(2) have "numberToString (a div 10) = numberToString (b div 10)"
        and "digitChar (a mod 10) = digitChar (b mod 10)"
        by (simp_all add: numberToString.simps[of a] numberToString.simps[of b])
      with 1(1)[OF False] have "a div 10 = b div 10" and "a mod 10 = b mod 10"
        by (simp_all add: digitChar_inj)
      then show ?thesis
        by (metis div_mult_mod_eq)
    qed
  qed
qed

lemma split_at_separator:
  "c \<notin> set xs \<Longrightarrow> c \<notin> set ys \<Longrightarrow> xs @ c # r = ys @ c # r' \<Longrightarrow> xs = ys \<and> r = r'"
proof (induction xs arbitrary: ys)
  case Nil
  then show ?case by (cases ys) auto
next
  case (Cons x xs)
  then show ?case by (cases ys) auto
qed

lemma gcsFileName_inj:
  assumes "CHR ''/'' \<notin> set u" "CHR ''/'' \<notin> set sid" "CHR ''/'' \<notin> set cid"
    and "CHR ''/'' \<notin> set u'" "CHR ''/'' \<notin> set sid'" "CHR ''/'' \<notin> set cid'"
    and "gcsFileName u sid cid t f = gcsFileName u' sid' cid' t' f'"
  shows "u = u' \<and> sid = sid' \<and> cid = cid' \<and> t = t' \<and> f = f'"
proof -
  from assms(7) have
    "u @ CHR ''/'' # (sid @ CHR ''/'' # (cid @ CHR ''/'' # (numberToString t @ CHR ''_'' # f))) =
     u' @ CHR ''/'' # (sid' @ CHR ''/'' # (cid' @ CHR ''/'' # (numberToString t' @ CHR ''_'' # f')))"
    by (simp add: gcsFileName_def)
  from split_at_separator[OF assms(1,4) this] have u: "u = u'"
    and r1: "sid @ CHR ''/'' # (cid @ CHR ''/'' # (numberToString t @ CHR ''_'' # f)) =
             sid' @ CHR ''/'' # (cid' @ CHR ''/'' # (numberToString t' @ CHR ''_'' # f'))"
    by simp_all
  from split_at_separator[OF assms(2,5) r1] have s: "sid = sid'"
    and r2: "cid @ CHR ''/'' # (numberToString t @ CHR ''_'' # f) =
             cid' @ CHR ''/'' # (numberToString t' @ CHR ''_'' # f')"
    by simp_all
  from split_at_separator[OF assms(3,6) r2] have c: "cid = cid'"
    and r3: "numberToString t @ CHR ''_'' # f = numberToString t' @ CHR ''_'' # f'"
    by simp_all
  have "CHR ''_'' \<notin> set (numberToString t)" "CHR ''_'' \<notin> set (numberToString t')"
    using numberToString_digits by fastforce+
  from split_at_separator[OF this r3] have "numberToString t = numberToString t'" and "f = f'"
    by simp_all
  with u s c show ?thesis
    by (simp add: numberToString_inj)
qed

lemma upload_text_note:
  assumes "userUUID s = Some u" and "u \<noteq> []"
    and "req_file req = None" and "req_title req = Some t" and "t \<noteq> []"
    and "req_subjectId req = Some sid" and "req_chapterId req = Some cid"
    and "queryOk e" and "writeOk e" and "users st u = Some user"
    and "subjectById (castObjectId e) (subjects user) (Some sid) = Some subj"
    and "chapterById (castObjectId e) (chapters subj) (Some cid) = Some chap"
  shows "uploadNoteFile e req s st =
           (\<lparr>status = 201, body = Message ''Note saved''\<rparr>,
            st\<lparr>objectIdIndex := getInc st,
               users := (users st)(u \<mapsto> pushNote user (subject_id subj) (chapter_id chap)
               \<lparr>note_id = generateObjectId e st, title = trim t,
                note_content = orDefault (req_content req) [],
                note_type = orDefault (req_type req) ''notes'', fileUrl = [], mimeType = [],
                note_createdAt = createdAtDefault e\<rparr>)\<rparr>)"
  using assms
  by (simp add: uploadNoteFile_def saveTextNote_def authenticated_def orDefault_def
      generated_def Let_def)

lemma generator_storage [simp]:
  "getInc (st\<lparr>gcpConfigured := g, storage := h, bucket := b\<rparr>) = getInc st"
  "generateObjectId e (st\<lparr>gcpConfigured := g, storage := h, bucket := b\<rparr>) = generateObjectId e st"
  by (simp_all add: getInc_def generateObjectId_def)

text \<open>
  Claim C10. An upload request of an authenticated user with a title and no file, for
  an existing chapter, answers 201 when the reads and the save succeed, and appends a
  note with the trimmed title and empty \<open>fileUrl\<close> and \<open>mimeType\<close> to that chapter.
  The storage globals play no part: whatever they are set to, the response is the same
  and they are left as they were.
\<close>

theorem upload_title_only_skips_storage_check:
  assumes "userUUID s = Some u" and "u \<noteq> []"
    and "req_file req = None" and "req_title req = Some t" and "t \<noteq> []"
    and "req_subjectId req = Some sid" and "req_chapterId req = Some cid"
    and "queryOk e" and "writeOk e"
    and "notesOf (castObjectId e) st u sid cid = Some ns"
  shows "fst (uploadNoteFile e req s st) = \<lparr>status = 201, body = Message ''Note saved''\<rparr>
       \<and> notesOf (castObjectId e) (snd (uploadNoteFile e req s st)) u sid cid =
           Some (ns @ [\<lparr>note_id = generateObjectId e st, title = trim t,
                        note_content = orDefault (req_content req) [],
                        note_type = orDefault (req_type req) ''notes'', fileUrl = [], mimeType = [],
                        note_createdAt = createdAtDefault e\<rparr>])
       \<and> uploadNoteFile e req s (st\<lparr>gcpConfigured := g, storage := h, bucket := b\<rparr>) =
           (fst (uploadNoteFile e req s st),
            (snd (uploadNoteFile e req s st))\<lparr>gcpConfigured := g, storage := h, bucket := b\<rparr>)"
proof -
  from assms(10) obtain user subj chap where user: "users st u = Some user"
    and subj: "subjectById (castObjectId e) (subjects user) (Some sid) = Some subj"
    and chap: "chapterById (castObjectId e) (chapters subj) (Some cid) = Some chap"
    and ns: "chapter_notes chap = ns"
    by (auto elim: notesOf_SomeD)
  let ?st' = "st\<lparr>gcpConfigured := g, storage := h, bucket := b\<rparr>"
  have user': "users ?st' u = Some user"
    using user by simp
  note run = upload_text_note[OF assms(1-9) user subj chap]
  note run' = upload_text_note[OF assms(1-9) user' subj chap]
  have "notesOf (castObjectId e) (snd (uploadNoteFile e req s st)) u sid cid =
          Some (chapter_notes chap @ [\<lparr>note_id = generateObjectId e st, title = trim t,
                        note_content = orDefault (req_content req) [],
                        note_type = orDefault (req_type req) ''notes'', fileUrl = [], mimeType = [],
                        note_createdAt = createdAtDefault e\<rparr>])"
    by (rule notesOf_pushNote[OF user subj chap]) (simp add: run)
  then show ?thesis
    by (simp add: run run' ns)
qed

lemma notes_examples:
  "notesOf castHexString biologyServer ''u1'' biologyId cellTheoryId = Some []"
  "notesOf castHexString storageServer ''u1'' biologyId cellTheoryId = Some []"
  by (simp_all add: notesOf_def subjectById_def chapterById_def castId_def cast_examples
      biologyServer_def storageServer_def biologyUser_def)

lemma env_examples:
  "queryOk (envAt t)" "writeOk (envAt t)" "blobSaveOk (envAt t)"
  "castObjectId (envAt t) = castHexString" "now (envAt t) = t"
  "createdAtDefault (envAt t) = t" "objectIdTime (envAt t) = t div 1000"
  "queryOk (envBlobFails t)" "\<not> blobSaveOk (envBlobFails t)"
  "castObjectId (envBlobFails t) = castHexString" "thrown (envBlobFails t) = ''socket hang up''"
  by (simp_all add: envAt_def envBlobFails_def)

theorem upload_title_only_skips_storage_check_witness:
  "userUUID freshSession = Some ''u1'' \<and> ''u1'' \<noteq> []
   \<and> req_file (uploadRequest (Some ''Mitochondria'') None) = None
   \<and> queryOk (envAt 9) \<and> writeOk (envAt 9)
   \<and> \<not> gcpConfigured biologyServer \<and> bucket biologyServer = None
   \<and> notesOf castHexString biologyServer ''u1'' biologyId cellTheoryId = Some []
   \<and> fst (uploadNoteFile (envAt 9) (uploadRequest (Some ''Mitochondria'') None)
            freshSession biologyServer) =
        \<lparr>status = 201, body = Message ''Note saved''\<rparr>
   \<and> notesOf castHexString
        (snd (uploadNoteFile (envAt 9) (uploadRequest (Some ''Mitochondria'') None)
                freshSession biologyServer)) ''u1'' biologyId cellTheoryId =
        Some [\<lparr>note_id = ObjectId 0 171 3, title = ''Mitochondria'', note_content = [],
               note_type = ''notes'', fileUrl = [], mimeType = [], note_createdAt = 9\<rparr>]"
proof -
  have h1: "userUUID freshSession = Some ''u1''" and h2: "''u1'' \<noteq> []"
    by (simp_all add: freshSession_def)
  have h3: "req_file (uploadRequest (Some ''Mitochondria'') None) = None"
    and h4: "req_title (uploadRequest (Some ''Mitochondria'') None) = Some ''Mitochondria''"
    and h5: "''Mitochondria'' \<noteq> []"
    and h6: "req_subjectId (uploadRequest (Some ''Mitochondria'') None) = Some biologyId"
    and h7: "req_chapterId (uploadRequest (Some ''Mitochondria'') None) = Some cellTheoryId"
    by (simp_all add: uploadRequest_def)
  have h8: "queryOk (envAt 9)" and h9: "writeOk (envAt 9)"
    by (simp_all add: env_examples)
  have h10: "notesOf (castObjectId (envAt 9)) biologyServer ''u1'' biologyId cellTheoryId = Some []"
    by (simp add: env_examples notes_examples)
  have g: "\<not> gcpConfigured biologyServer" "bucket biologyServer = None"
    by (simp_all add: biologyServer_def)
  have t: "trim ''Mitochondria'' = ''Mitochondria''"
    by (simp add: trim_def isWhiteSpace_def)
  have i: "generateObjectId (envAt 9) biologyServer = ObjectId 0 171 3"
    by (simp add: generateObjectId_def getInc_def biologyServer_def env_examples)
  from upload_title_only_skips_storage_check [OF h1 h2 h3 h4 h5 h6 h7 h8 h9 h10]
    h1 h2 h3 h8 h9 g t i notes_examples
  show ?thesis
    by (simp add: orDefault_def uploadRequest_def env_examples)
qed

lemma upload_file_unconfigured:
  assumes "authenticated s" and "req_file req = Some f"
    and "\<not> gcpConfigured st \<or> \<not> storage st \<or> bucket st = None"
  shows "status (fst (uploadNoteFile e req s st)) \<noteq> 201 \<and> snd (uploadNoteFile e req s st) = st"
  using assms
  by (auto simp: uploadNoteFile_def saveFileNote_def uploadFailed_def Let_def split: option.splits)

lemma upload_file_write_fails:
  assumes "authenticated s" and "req_file req = Some f" and "\<not> blobSaveOk e"
  shows "status (fst (uploadNoteFile e req s st)) \<noteq> 201 \<and> snd (uploadNoteFile e req s st) = st"
  using assms
  by (auto simp: uploadNoteFile_def saveFileNote_def uploadFailed_def Let_def split: option.splits)

lemma upload_file_reaches_storage:
  assumes "userUUID s = Some u" and "u \<noteq> []" and "req_file req = Some f"
    and "req_subjectId req = Some sid" and "req_chapterId req = Some cid" and "queryOk e"
    and "users st u = Some user"
    and "subjectById (castObjectId e) (subjects user) (Some sid) = Some subj"
    and "chapterById (castObjectId e) (chapters subj) (Some cid) = Some chap"
  shows "uploadNoteFile e req s st =
           saveFileNote e u user (subject_id subj) (chapter_id chap) sid cid
             (orDefault (req_title req) [])
             (orDefault (req_type req) ''notes'') (orDefault (req_content req) []) f st"
  using assms by (simp add: uploadNoteFile_def authenticated_def Let_def)

lemma upload_file_users_changed:
  assumes "userUUID s = Some u" and "u \<noteq> []" and "req_file req = Some f"
    and "users (snd (uploadNoteFile e req s st)) \<noteq> users st"
  shows "gcpConfigured st \<and> storage st \<and> blobSaveOk e \<and> writeOk e \<and> queryOk e
       \<and> (\<exists>b sid cid user subj chap. bucket st = Some b
            \<and> req_subjectId req = Some sid \<and> req_chapterId req = Some cid
            \<and> users st u = Some user
            \<and> subjectById (castObjectId e) (subjects user) (Some sid) = Some subj
            \<and> chapterById (castObjectId e) (chapters subj) (Some cid) = Some chap)"
proof -
  have auth: "authenticated s"
    using assms(1,2) by (simp add: authenticated_def)
  have q: "queryOk e"
    using assms(4) auth by (auto simp: uploadNoteFile_def assms(3) Let_def split: if_splits)
  obtain user where user: "users st u = Some user"
    using assms(1,3,4) auth q
    by (cases "users st u") (auto simp: uploadNoteFile_def Let_def)
  obtain subj where subj: "subjectById (castObjectId e) (subjects user) (req_subjectId req) = Some subj"
    using assms(1,3,4) auth q user
    by (cases "subjectById (castObjectId e) (subjects user) (req_subjectId req)")
       (auto simp: uploadNoteFile_def Let_def)
  obtain chap where chap: "chapterById (castObjectId e) (chapters subj) (req_chapterId req) = Some chap"
    using assms(1,3,4) auth q user subj
    by (cases "chapterById (castObjectId e) (chapters subj) (req_chapterId req)")
       (auto simp: uploadNoteFile_def Let_def)
  from subj obtain sid where sid: "req_subjectId req = Some sid"
    by (cases "req_subjectId req") (auto simp: subjectById_def castId_def)
  from chap obtain cid where cid: "req_chapterId req = Some cid"
    by (cases "req_chapterId req") (auto simp: chapterById_def castId_def)
  note run = upload_file_reaches_storage[OF assms(1-3) sid cid q user subj[unfolded sid] chap[unfolded cid]]
  from assms(4) have g: "gcpConfigured st \<and> storage st \<and> bucket st \<noteq> None \<and> blobSaveOk e \<and> writeOk e"
    by (auto simp: run saveFileNote_def uploadFailed_def generated_def Let_def split: if_splits)
  then obtain b where "bucket st = Some b" by auto
  with g q user subj chap sid cid show ?thesis
    by auto
qed

lemma upload_file_stored:
  assumes "userUUID s = Some u" and "u \<noteq> []" and "req_file req = Some f"
    and "req_subjectId req = Some sid" and "req_chapterId req = Some cid" and "queryOk e"
    and "notesOf (castObjectId e) st u sid cid = Some ns"
    and "gcpConfigured st" and "storage st" and "bucket st = Some b"
    and "blobSaveOk e" and "writeOk e"
  shows "fst (uploadNoteFile e req s st) =
           \<lparr>status = 201, body = FileUploaded ''File uploaded''
              (publicUrl (bucket_name b) (gcsFileName u sid cid (now e) (originalname f)))\<rparr>"
    and "bucket (snd (uploadNoteFile e req s st)) =
           Some (b\<lparr>objects := (objects b)(gcsFileName u sid cid (now e) (originalname f)
                                   \<mapsto> (buffer f, mimetype f))\<rparr>)"
    and "notesOf (castObjectId e) (snd (uploadNoteFile e req s st)) u sid cid =
           Some (ns @ [\<lparr>note_id = generateObjectId e st,
                        title = (if orDefault (req_title req) [] \<noteq> []
                                 then orDefault (req_title req) [] else originalname f),
                        note_content = orDefault (req_content req) [],
                        note_type = orDefault (req_type req) ''notes'',
                        fileUrl = publicUrl (bucket_name b)
                                    (gcsFileName u sid cid (now e) (originalname f)),
                        mimeType = mimetype f,
                        note_createdAt = createdAtDefault e\<rparr>])"
proof -
  from assms(7) obtain user subj chap where user: "users st u = Some user"
    and subj: "subjectById (castObjectId e) (subjects user) (Some sid) = Some subj"
    and chap: "chapterById (castObjectId e) (chapters subj) (Some cid) = Some chap"
    and ns: "chapter_notes chap = ns"
    by (auto elim: notesOf_SomeD)
  note run = upload_file_reaches_storage[OF assms(1-6) user subj chap]
  show "fst (uploadNoteFile e req s st) =
           \<lparr>status = 201, body = FileUploaded ''File uploaded''
              (publicUrl (bucket_name b) (gcsFileName u sid cid (now e) (originalname f)))\<rparr>"
    using assms(8-12) by (simp add: run saveFileNote_def Let_def)
  show "bucket (snd (uploadNoteFile e req s st)) =
           Some (b\<lparr>objects := (objects b)(gcsFileName u sid cid (now e) (originalname f)
                                   \<mapsto> (buffer f, mimetype f))\<rparr>)"
    using assms(8-12) by (simp add: run saveFileNote_def generated_def Let_def)
  have "notesOf (castObjectId e) (snd (uploadNoteFile e req s st)) u sid cid =
           Some (chapter_notes chap @ [\<lparr>note_id = generateObjectId e st,
                        title = (if orDefault (req_title req) [] \<noteq> []
                                 then orDefault (req_title req) [] else originalname f),
                        note_content = orDefault (req_content req) [],
                        note_type = orDefault (req_type req) ''notes'',
                        fileUrl = publicUrl (bucket_name b)
                                    (gcsFileName u sid cid (now e) (originalname f)),
                        mimeType = mimetype f,
                        note_createdAt = createdAtDefault e\<rparr>])"
    using assms(8-12)
    by (intro notesOf_pushNote[OF user subj chap])
       (simp add: run saveFileNote_def generated_def Let_def)
  then show "notesOf (castObjectId e) (snd (uploadNoteFile e req s st)) u sid cid =
           Some (ns @ [\<lparr>note_id = generateObjectId e st,
                        title = (if orDefault (req_title req) [] \<noteq> []
                                 then orDefault (req_title req) [] else originalname f),
                        note_content = orDefault (req_content req) [],
                        note_type = orDefault (req_type req) ''notes'',
                        fileUrl = publicUrl (bucket_name b)
                                    (gcsFileName u sid cid (now e) (originalname f)),
                        mimeType = mimetype f,
                        note_createdAt = createdAtDefault e\<rparr>])"
    by (simp add: ns)
qed


text \<open>
  Claim C1. Take an upload request of an authenticated user that carries a file. If
  the object store is not configured, or the object write is rejected, the request does
  not answer 201 and the server state is unchanged; for an existing chapter the
  response is 500, \<open>Cloud storage not configured\<close> in the first case and
  \<open>Upload failed\<close> in the second. Whenever the request changes the user documents at
  all, the store was configured, the object write went through, the bucket holds the
  file under the object name, and the chapter has gained exactly one note, whose
  \<open>fileUrl\<close> is the object's public URL and whose \<open>mimeType\<close> is the file's.
\<close>

theorem upload_file_needs_stored_object:
  assumes "userUUID s = Some u" and "u \<noteq> []" and "req_file req = Some f"
  shows "(\<not> gcpConfigured st \<or> \<not> storage st \<or> bucket st = None \<longrightarrow>
            status (fst (uploadNoteFile e req s st)) \<noteq> 201
            \<and> snd (uploadNoteFile e req s st) = st)
       \<and> ((\<not> gcpConfigured st \<or> \<not> storage st \<or> bucket st = None) \<and> queryOk e
            \<and> req_subjectId req = Some sid \<and> req_chapterId req = Some cid
            \<and> notesOf (castObjectId e) st u sid cid = Some ns \<longrightarrow>
            uploadNoteFile e req s st =
              (\<lparr>status = 500, body = Error ''Cloud storage not configured''\<rparr>, st))
       \<and> (\<not> blobSaveOk e \<longrightarrow>
            status (fst (uploadNoteFile e req s st)) \<noteq> 201
            \<and> snd (uploadNoteFile e req s st) = st)
       \<and> (gcpConfigured st \<and> storage st \<and> bucket st \<noteq> None \<and> \<not> blobSaveOk e \<and> queryOk e
            \<and> req_subjectId req = Some sid \<and> req_chapterId req = Some cid
            \<and> notesOf (castObjectId e) st u sid cid = Some ns \<longrightarrow>
            uploadNoteFile e req s st =
              (\<lparr>status = 500, body = ErrorDetails ''Upload failed'' (thrown e)\<rparr>, st))
       \<and> (users (snd (uploadNoteFile e req s st)) \<noteq> users st \<longrightarrow>
            gcpConfigured st \<and> storage st \<and> blobSaveOk e
            \<and> (\<exists>b i j ms. bucket st = Some b
                 \<and> req_subjectId req = Some i \<and> req_chapterId req = Some j
                 \<and> notesOf (castObjectId e) st u i j = Some ms
                 \<and> fst (uploadNoteFile e req s st) =
                     \<lparr>status = 201, body = FileUploaded ''File uploaded''
                        (publicUrl (bucket_name b) (gcsFileName u i j (now e) (originalname f)))\<rparr>
                 \<and> bucket (snd (uploadNoteFile e req s st)) =
                     Some (b\<lparr>objects := (objects b)(gcsFileName u i j (now e) (originalname f)
                                             \<mapsto> (buffer f, mimetype f))\<rparr>)
                 \<and> notesOf (castObjectId e) (snd (uploadNoteFile e req s st)) u i j =
                     Some (ms @ [\<lparr>note_id = generateObjectId e st,
                        title = (if orDefault (req_title req) [] \<noteq> []
                                 then orDefault (req_title req) [] else originalname f),
                        note_content = orDefault (req_content req) [],
                        note_type = orDefault (req_type req) ''notes'',
                        fileUrl = publicUrl (bucket_name b)
                                    (gcsFileName u i j (now e) (originalname f)),
                        mimeType = mimetype f,
                        note_createdAt = createdAtDefault e\<rparr>])))"
proof -
  have auth: "authenticated s"
    using assms by (simp add: authenticated_def)
  have a: "\<not> gcpConfigured st \<or> \<not> storage st \<or> bucket st = None \<longrightarrow>
            status (fst (uploadNoteFile e req s st)) \<noteq> 201
            \<and> snd (uploadNoteFile e req s st) = st"
    using upload_file_unconfigured[OF auth assms(3)] by blast
  have b: "(\<not> gcpConfigured st \<or> \<not> storage st \<or> bucket st = None) \<and> queryOk e
            \<and> req_subjectId req = Some sid \<and> req_chapterId req = Some cid
            \<and> notesOf (castObjectId e) st u sid cid = Some ns \<longrightarrow>
            uploadNoteFile e req s st =
              (\<lparr>status = 500, body = Error ''Cloud storage not configured''\<rparr>, st)"
  proof (intro impI, elim conjE)
    assume g: "\<not> gcpConfigured st \<or> \<not> storage st \<or> bucket st = None" and q: "queryOk e"
      and i: "req_subjectId req = Some sid" "req_chapterId req = Some cid"
      and n: "notesOf (castObjectId e) st u sid cid = Some ns"
    from n obtain user subj chap where user: "users st u = Some user"
      and subj: "subjectById (castObjectId e) (subjects user) (Some sid) = Some subj"
      and chap: "chapterById (castObjectId e) (chapters subj) (Some cid) = Some chap"
      by (auto elim: notesOf_SomeD)
    from g show "uploadNoteFile e req s st =
              (\<lparr>status = 500, body = Error ''Cloud storage not configured''\<rparr>, st)"
      by (auto simp: upload_file_reaches_storage[OF assms i q user subj chap] saveFileNote_def)
  qed
  have c: "\<not> blobSaveOk e \<longrightarrow>
            status (fst (uploadNoteFile e req s st)) \<noteq> 201
            \<and> snd (uploadNoteFile e req s st) = st"
    using upload_file_write_fails[OF auth assms(3)] by blast
  have d: "gcpConfigured st \<and> storage st \<and> bucket st \<noteq> None \<and> \<not> blobSaveOk e \<and> queryOk e
            \<and> req_subjectId req = Some sid \<and> req_chapterId req = Some cid
            \<and> notesOf (castObjectId e) st u sid cid = Some ns \<longrightarrow>
            uploadNoteFile e req s st =
              (\<lparr>status = 500, body = ErrorDetails ''Upload failed'' (thrown e)\<rparr>, st)"
  proof (intro impI, elim conjE)
    assume g: "gcpConfigured st" "storage st" "bucket st \<noteq> None" "\<not> blobSaveOk e"
      and q: "queryOk e"
      and i: "req_subjectId req = Some sid" "req_chapterId req = Some cid"
      and n: "notesOf (castObjectId e) st u sid cid = Some ns"
    from n obtain user subj chap where user: "users st u = Some user"
      and subj: "subjectById (castObjectId e) (subjects user) (Some sid) = Some subj"
      and chap: "chapterById (castObjectId e) (chapters subj) (Some cid) = Some chap"
      by (auto elim: notesOf_SomeD)
    from g show "uploadNoteFile e req s st =
              (\<lparr>status = 500, body = ErrorDetails ''Upload failed'' (thrown e)\<rparr>, st)"
      by (simp add: upload_file_reaches_storage[OF assms i q user subj chap] saveFileNote_def
          uploadFailed_def Let_def)
  qed
  have e: "users (snd (uploadNoteFile e req s st)) \<noteq> users st \<longrightarrow>
            gcpConfigured st \<and> storage st \<and> blobSaveOk e
            \<and> (\<exists>b i j ms. bucket st = Some b
                 \<and> req_subjectId req = Some i \<and> req_chapterId req = Some j
                 \<and> notesOf (castObjectId e) st u i j = Some ms
                 \<and> fst (uploadNoteFile e req s st) =
                     \<lparr>status = 201, body = FileUploaded ''File uploaded''
                        (publicUrl (bucket_name b) (gcsFileName u i j (now e) (originalname f)))\<rparr>
                 \<and> bucket (snd (uploadNoteFile e req s st)) =
                     Some (b\<lparr>objects := (objects b)(gcsFileName u i j (now e) (originalname f)
                                             \<mapsto> (buffer f, mimetype f))\<rparr>)
                 \<and> notesOf (castObjectId e) (snd (uploadNoteFile e req s st)) u i j =
                     Some (ms @ [\<lparr>note_id = generateObjectId e st,
                        title = (if orDefault (req_title req) [] \<noteq> []
                                 then orDefault (req_title req) [] else originalname f),
                        note_content = orDefault (req_content req) [],
                        note_type = orDefault (req_type req) ''notes'',
                        fileUrl = publicUrl (bucket_name b)
                                    (gcsFileName u i j (now e) (originalname f)),
                        mimeType = mimetype f,
                        note_createdAt = createdAtDefault e\<rparr>]))"
  proof
    assume ch: "users (snd (uploadNoteFile e req s st)) \<noteq> users st"
    from upload_file_users_changed[OF assms ch] obtain b i j user subj chap where
      g: "gcpConfigured st" "storage st" "blobSaveOk e" "writeOk e" "queryOk e"
      and bk: "bucket st = Some b"
      and ids: "req_subjectId req = Some i" "req_chapterId req = Some j"
      and lk: "users st u = Some user"
        "subjectById (castObjectId e) (subjects user) (Some i) = Some subj"
        "chapterById (castObjectId e) (chapters subj) (Some j) = Some chap"
      by blast
    from lk have n: "notesOf (castObjectId e) st u i j = Some (chapter_notes chap)"
      by (simp add: notesOf_def)
    from upload_file_stored[OF assms ids g(5) n g(1,2) bk g(3,4)] g bk ids n
    show "gcpConfigured st \<and> storage st \<and> blobSaveOk e
            \<and> (\<exists>b i j ms. bucket st = Some b
                 \<and> req_subjectId req = Some i \<and> req_chapterId req = Some j
                 \<and> notesOf (castObjectId e) st u i j = Some ms
                 \<and> fst (uploadNoteFile e req s st) =
                     \<lparr>status = 201, body = FileUploaded ''File uploaded''
                        (publicUrl (bucket_name b) (gcsFileName u i j (now e) (originalname f)))\<rparr>
                 \<and> bucket (snd (uploadNoteFile e req s st)) =
                     Some (b\<lparr>objects := (objects b)(gcsFileName u i j (now e) (originalname f)
                                             \<mapsto> (buffer f, mimetype f))\<rparr>)
                 \<and> notesOf (castObjectId e) (snd (uploadNoteFile e req s st)) u i j =
                     Some (ms @ [\<lparr>note_id = generateObjectId e st,
                        title = (if orDefault (req_title req) [] \<noteq> []
                                 then orDefault (req_title req) [] else originalname f),
                        note_content = orDefault (req_content req) [],
                        note_type = orDefault (req_type req) ''notes'',
                        fileUrl = publicUrl (bucket_name b)
                                    (gcsFileName u i j (now e) (originalname f)),
                        mimeType = mimetype f,
                        note_createdAt = createdAtDefault e\<rparr>]))"
      by blast
  qed
  from a b c d e show ?thesis
    by blast
qed


lemma notesOf_users_cong:
  "users st' = users st \<Longrightarrow> notesOf cast st' u sid cid = notesOf cast st u sid cid"
  by (simp add: notesOf_def)

lemma nine: "numberToString 9 = ''9''"
  by (simp add: numberToString.simps digitChar_def)

lemma millis: "numberToString 1700000000123 = ''1700000000123''"
  by (simp add: numberToString.simps digitChar_def)

theorem upload_file_needs_stored_object_witness:
  "userUUID freshSession = Some ''u1'' \<and> ''u1'' \<noteq> []
   \<and> req_file (uploadRequest None (Some pdfFile)) = Some pdfFile
   \<and> \<not> gcpConfigured biologyServer
   \<and> notesOf castHexString biologyServer ''u1'' biologyId cellTheoryId = Some []
   \<and> uploadNoteFile (envAt 9) (uploadRequest None (Some pdfFile)) freshSession biologyServer =
        (\<lparr>status = 500, body = Error ''Cloud storage not configured''\<rparr>, biologyServer)
   \<and> gcpConfigured storageServer \<and> storage storageServer \<and> bucket storageServer \<noteq> None
   \<and> \<not> blobSaveOk (envBlobFails 9)
   \<and> uploadNoteFile (envBlobFails 9) (uploadRequest None (Some pdfFile)) freshSession storageServer =
        (\<lparr>status = 500, body = ErrorDetails ''Upload failed'' ''socket hang up''\<rparr>, storageServer)
   \<and> users (snd (uploadNoteFile (envAt 9) (uploadRequest None (Some pdfFile)) freshSession
                    storageServer)) \<noteq> users storageServer
   \<and> blobSaveOk (envAt 9)
   \<and> fst (uploadNoteFile (envAt 9) (uploadRequest None (Some pdfFile)) freshSession storageServer) =
        \<lparr>status = 201, body = FileUploaded ''File uploaded''
           ''https://storage.googleapis.com/study-notes/u1/0000000200000000ab000001/0000000300000000ab000002/9_notes.pdf''\<rparr>
   \<and> notesOf castHexString
        (snd (uploadNoteFile (envAt 9) (uploadRequest None (Some pdfFile)) freshSession
                storageServer)) ''u1'' biologyId cellTheoryId =
        Some [\<lparr>note_id = ObjectId 0 171 3, title = ''notes.pdf'', note_content = [],
               note_type = ''notes'',
               fileUrl = ''https://storage.googleapis.com/study-notes/u1/0000000200000000ab000001/0000000300000000ab000002/9_notes.pdf'',
               mimeType = ''application/pdf'', note_createdAt = 9\<rparr>]"
proof -
  let ?req = "uploadRequest None (Some pdfFile)"
  let ?b = "\<lparr>bucket_name = ''study-notes'', objects = Map.empty\<rparr>"
  have h1: "userUUID freshSession = Some ''u1''" and h2: "''u1'' \<noteq> []"
    by (simp_all add: freshSession_def)
  have h3: "req_file ?req = Some pdfFile"
    and ids: "req_subjectId ?req = Some biologyId" "req_chapterId ?req = Some cellTheoryId"
    and rq: "req_title ?req = None" "req_type ?req = None" "req_content ?req = None"
    by (simp_all add: uploadRequest_def)
  have g0: "\<not> gcpConfigured biologyServer"
    by (simp add: biologyServer_def)
  have g1: "gcpConfigured storageServer" "storage storageServer" "bucket storageServer \<noteq> None"
    and bk: "bucket storageServer = Some ?b"
    by (simp_all add: storageServer_def)
  have n0: "notesOf (castObjectId (envAt 9)) biologyServer ''u1'' biologyId cellTheoryId = Some []"
    and n1: "notesOf (castObjectId (envAt 9)) storageServer ''u1'' biologyId cellTheoryId = Some []"
    and n2: "notesOf (castObjectId (envBlobFails 9)) storageServer ''u1'' biologyId cellTheoryId = Some []"
    by (simp_all add: env_examples notes_examples)
  have i: "generateObjectId (envAt 9) storageServer = ObjectId 0 171 3"
    by (simp add: generateObjectId_def getInc_def storageServer_def env_examples)
  have nm: "gcsFileName ''u1'' biologyId cellTheoryId 9 ''notes.pdf'' =
              ''u1/0000000200000000ab000001/0000000300000000ab000002/9_notes.pdf''"
    by (simp add: gcsFileName_def biologyId_def cellTheoryId_def nine)
  from upload_file_needs_stored_object [OF h1 h2 h3, of biologyServer "envAt 9" biologyId cellTheoryId "[]"]
  have A: "uploadNoteFile (envAt 9) ?req freshSession biologyServer =
        (\<lparr>status = 500, body = Error ''Cloud storage not configured''\<rparr>, biologyServer)"
    using g0 n0 ids by (simp add: env_examples)
  from upload_file_needs_stored_object [OF h1 h2 h3, of storageServer "envBlobFails 9" biologyId cellTheoryId "[]"]
  have B: "uploadNoteFile (envBlobFails 9) ?req freshSession storageServer =
        (\<lparr>status = 500, body = ErrorDetails ''Upload failed'' ''socket hang up''\<rparr>, storageServer)"
    using g1 n2 ids by (simp add: env_examples)
  have "notesOf castHexString (snd (uploadNoteFile (envAt 9) ?req freshSession storageServer))
          ''u1'' biologyId cellTheoryId \<noteq> notesOf castHexString storageServer ''u1'' biologyId cellTheoryId"
    using upload_file_stored(3)[OF h1 h2 h3 ids _ n1 g1(1,2) bk]
    by (simp add: env_examples notes_examples)
  then have ch: "users (snd (uploadNoteFile (envAt 9) ?req freshSession storageServer))
          \<noteq> users storageServer"
    using notesOf_users_cong by metis
  from upload_file_needs_stored_object [OF h1 h2 h3, of storageServer "envAt 9"] ch
  obtain b i j ms where
    o: "bucket storageServer = Some b" "req_subjectId ?req = Some i" "req_chapterId ?req = Some j"
       "notesOf (castObjectId (envAt 9)) storageServer ''u1'' i j = Some ms"
    and r: "fst (uploadNoteFile (envAt 9) ?req freshSession storageServer) =
              \<lparr>status = 201, body = FileUploaded ''File uploaded''
                 (publicUrl (bucket_name b) (gcsFileName ''u1'' i j (now (envAt 9)) (originalname pdfFile)))\<rparr>"
    and k: "notesOf (castObjectId (envAt 9))
              (snd (uploadNoteFile (envAt 9) ?req freshSession storageServer)) ''u1'' i j =
            Some (ms @ [\<lparr>note_id = generateObjectId (envAt 9) storageServer,
                        title = (if orDefault (req_title ?req) [] \<noteq> []
                                 then orDefault (req_title ?req) [] else originalname pdfFile),
                        note_content = orDefault (req_content ?req) [],
                        note_type = orDefault (req_type ?req) ''notes'',
                        fileUrl = publicUrl (bucket_name b)
                                    (gcsFileName ''u1'' i j (now (envAt 9)) (originalname pdfFile)),
                        mimeType = mimetype pdfFile,
                        note_createdAt = createdAtDefault (envAt 9)\<rparr>])"
    by blast
  from o ids bk n1 have eq: "b = ?b" "i = biologyId" "j = cellTheoryId" "ms = []"
    by simp_all
  have pf: "originalname pdfFile = ''notes.pdf''" "mimetype pdfFile = ''application/pdf''"
    by (simp_all add: pdfFile_def)
  have url: "publicUrl (bucket_name ?b) (gcsFileName ''u1'' biologyId cellTheoryId 9 ''notes.pdf'') =
      ''https://storage.googleapis.com/study-notes/u1/0000000200000000ab000001/0000000300000000ab000002/9_notes.pdf''"
    by (simp add: publicUrl_def nm)
  have C: "fst (uploadNoteFile (envAt 9) ?req freshSession storageServer) =
        \<lparr>status = 201, body = FileUploaded ''File uploaded''
           ''https://storage.googleapis.com/study-notes/u1/0000000200000000ab000001/0000000300000000ab000002/9_notes.pdf''\<rparr>"
    using r url by (simp add: eq env_examples pf)
  have D: "notesOf castHexString (snd (uploadNoteFile (envAt 9) ?req freshSession storageServer))
              ''u1'' biologyId cellTheoryId =
        Some [\<lparr>note_id = ObjectId 0 171 3, title = ''notes.pdf'', note_content = [],
               note_type = ''notes'',
               fileUrl = ''https://storage.googleapis.com/study-notes/u1/0000000200000000ab000001/0000000300000000ab000002/9_notes.pdf'',
               mimeType = ''application/pdf'', note_createdAt = 9\<rparr>]"
    using k url by (simp add: eq env_examples pf i rq orDefault_def)
  from A B C D ch h1 h2 h3 g0 g1 notes_examples show ?thesis
    by (simp add: env_examples)
qed


text \<open>
  Claim C7, amended. A successful upload stores the file under the object name
  \<open>userId/subjectId/chapterId/millis_originalname\<close> and returns
  \<open>https://storage.googleapis.com/bucket/objectName\<close>. For ids without a slash,
  two object names are equal exactly when user, subject, chapter, millisecond and
  original file name are all equal: uploads that differ in one of the five never
  collide.
\<close>

theorem upload_object_name:
  assumes "userUUID s = Some u" and "u \<noteq> []" and "req_file req = Some f"
    and "req_subjectId req = Some sid" and "req_chapterId req = Some cid"
    and "queryOk e" and "blobSaveOk e" and "writeOk e"
    and "gcpConfigured st" and "storage st" and "bucket st = Some b"
    and "notesOf (castObjectId e) st u sid cid = Some ns"
    and "CHR ''/'' \<notin> set u \<and> CHR ''/'' \<notin> set sid \<and> CHR ''/'' \<notin> set cid"
    and "CHR ''/'' \<notin> set u' \<and> CHR ''/'' \<notin> set sid' \<and> CHR ''/'' \<notin> set cid'"
  shows "fst (uploadNoteFile e req s st) =
           \<lparr>status = 201, body = FileUploaded ''File uploaded''
              (''https://storage.googleapis.com/'' @ bucket_name b @ ''/''
               @ gcsFileName u sid cid (now e) (originalname f))\<rparr>
       \<and> gcsFileName u sid cid (now e) (originalname f) =
           u @ ''/'' @ sid @ ''/'' @ cid @ ''/'' @ numberToString (now e) @ ''_'' @ originalname f
       \<and> bucket (snd (uploadNoteFile e req s st)) =
           Some (b\<lparr>objects := (objects b)(gcsFileName u sid cid (now e) (originalname f)
                                   \<mapsto> (buffer f, mimetype f))\<rparr>)
       \<and> (gcsFileName u sid cid (now e) (originalname f) = gcsFileName u' sid' cid' t' f'
            \<longleftrightarrow> u = u' \<and> sid = sid' \<and> cid = cid' \<and> now e = t' \<and> originalname f = f')"
proof -
  have "gcsFileName u sid cid (now e) (originalname f) = gcsFileName u' sid' cid' t' f'
          \<Longrightarrow> u = u' \<and> sid = sid' \<and> cid = cid' \<and> now e = t' \<and> originalname f = f'"
    using assms(13,14) gcsFileName_inj[of u sid cid u' sid' cid' "now e" "originalname f" t' f']
    by blast
  then have inj: "gcsFileName u sid cid (now e) (originalname f) = gcsFileName u' sid' cid' t' f'
            \<longleftrightarrow> u = u' \<and> sid = sid' \<and> cid = cid' \<and> now e = t' \<and> originalname f = f'"
    by blast
  from upload_file_stored(1,2)[OF assms(1-6,12,9-11,7,8)] inj show ?thesis
    by (simp add: publicUrl_def gcsFileName_def)
qed

theorem upload_object_name_witness:
  "userUUID freshSession = Some ''u1'' \<and> ''u1'' \<noteq> []
   \<and> req_file (uploadRequest None (Some pdfFile)) = Some pdfFile
   \<and> queryOk (envAt 1700000000123) \<and> blobSaveOk (envAt 1700000000123)
   \<and> writeOk (envAt 1700000000123)
   \<and> gcpConfigured storageServer \<and> storage storageServer
   \<and> notesOf castHexString storageServer ''u1'' biologyId cellTheoryId = Some []
   \<and> CHR ''/'' \<notin> set ''u1'' \<and> CHR ''/'' \<notin> set biologyId \<and> CHR ''/'' \<notin> set cellTheoryId
   \<and> CHR ''/'' \<notin> set ''u2''
   \<and> fst (uploadNoteFile (envAt 1700000000123) (uploadRequest None (Some pdfFile))
            freshSession storageServer) =
        \<lparr>status = 201, body = FileUploaded ''File uploaded''
           ''https://storage.googleapis.com/study-notes/u1/0000000200000000ab000001/0000000300000000ab000002/1700000000123_notes.pdf''\<rparr>
   \<and> gcsFileName ''u1'' biologyId cellTheoryId 1700000000123 ''notes.pdf''
        \<noteq> gcsFileName ''u2'' biologyId cellTheoryId 1700000000123 ''notes.pdf''"
proof -
  let ?req = "uploadRequest None (Some pdfFile)"
  let ?e = "envAt 1700000000123"
  let ?b = "\<lparr>bucket_name = ''study-notes'', objects = Map.empty\<rparr>"
  have h1: "userUUID freshSession = Some ''u1''" and h2: "''u1'' \<noteq> []"
    by (simp_all add: freshSession_def)
  have h3: "req_file ?req = Some pdfFile"
    and h4: "req_subjectId ?req = Some biologyId" and h5: "req_chapterId ?req = Some cellTheoryId"
    by (simp_all add: uploadRequest_def)
  have h6: "queryOk ?e" and h7: "blobSaveOk ?e" and h8: "writeOk ?e"
    by (simp_all add: env_examples)
  have h9: "gcpConfigured storageServer" and h10: "storage storageServer"
    and h11: "bucket storageServer = Some ?b"
    by (simp_all add: storageServer_def)
  have h12: "notesOf (castObjectId ?e) storageServer ''u1'' biologyId cellTheoryId = Some []"
    by (simp add: env_examples notes_examples)
  have h13: "CHR ''/'' \<notin> set ''u1'' \<and> CHR ''/'' \<notin> set biologyId \<and> CHR ''/'' \<notin> set cellTheoryId"
    and h14: "CHR ''/'' \<notin> set ''u2'' \<and> CHR ''/'' \<notin> set biologyId \<and> CHR ''/'' \<notin> set cellTheoryId"
    by (simp_all add: biologyId_def cellTheoryId_def)
  have pf: "originalname pdfFile = ''notes.pdf''"
    by (simp add: pdfFile_def)
  have nm: "gcsFileName ''u1'' biologyId cellTheoryId 1700000000123 ''notes.pdf'' =
              ''u1/0000000200000000ab000001/0000000300000000ab000002/1700000000123_notes.pdf''"
    by (simp add: gcsFileName_def biologyId_def cellTheoryId_def millis)
  from upload_object_name [OF h1 h2 h3 h4 h5 h6 h7 h8 h9 h10 h11 h12 h13 h14,
      of 1700000000123 "''notes.pdf''"]
  have A: "fst (uploadNoteFile ?e ?req freshSession storageServer) =
        \<lparr>status = 201, body = FileUploaded ''File uploaded''
           ''https://storage.googleapis.com/study-notes/u1/0000000200000000ab000001/0000000300000000ab000002/1700000000123_notes.pdf''\<rparr>"
    and B: "gcsFileName ''u1'' biologyId cellTheoryId 1700000000123 ''notes.pdf''
        \<noteq> gcsFileName ''u2'' biologyId cellTheoryId 1700000000123 ''notes.pdf''"
    by (simp_all add: env_examples pf nm)
  from A B h1 h2 h3 h6 h7 h8 h9 h10 h13 h14 notes_examples show ?thesis
    by simp
qed

text \<open>
  Claim C7 as stated fails for two uploads of one user into one chapter that carry the
  same file name and see the same millisecond: both answer with the same URL, and the
  bucket ends with one object, the bytes of the second upload.
\<close>

theorem upload_same_millisecond_collision_counterexample:
  "pdfFile \<noteq> otherPdfFile
   \<and> fst (uploadNoteFile (envAt 1700000000123) (uploadRequest None (Some pdfFile))
            freshSession storageServer) =
        \<lparr>status = 201, body = FileUploaded ''File uploaded''
           ''https://storage.googleapis.com/study-notes/u1/0000000200000000ab000001/0000000300000000ab000002/1700000000123_notes.pdf''\<rparr>
   \<and> fst (uploadNoteFile (envAt 1700000000123) (uploadRequest None (Some otherPdfFile))
            freshSession
            (snd (uploadNoteFile (envAt 1700000000123) (uploadRequest None (Some pdfFile))
                    freshSession storageServer))) =
        \<lparr>status = 201, body = FileUploaded ''File uploaded''
           ''https://storage.googleapis.com/study-notes/u1/0000000200000000ab000001/0000000300000000ab000002/1700000000123_notes.pdf''\<rparr>
   \<and> bucket (snd (uploadNoteFile (envAt 1700000000123) (uploadRequest None (Some otherPdfFile))
            freshSession
            (snd (uploadNoteFile (envAt 1700000000123) (uploadRequest None (Some pdfFile))
                    freshSession storageServer)))) =
        Some \<lparr>bucket_name = ''study-notes'',
              objects = [''u1/0000000200000000ab000001/0000000300000000ab000002/1700000000123_notes.pdf''
                           \<mapsto> (''BBB'', ''application/pdf'')]\<rparr>"
proof -
  let ?e = "envAt 1700000000123"
  let ?b = "\<lparr>bucket_name = ''study-notes'', objects = Map.empty\<rparr>"
  let ?name = "''u1/0000000200000000ab000001/0000000300000000ab000002/1700000000123_notes.pdf''"
  let ?st1 = "snd (uploadNoteFile ?e (uploadRequest None (Some pdfFile)) freshSession storageServer)"
  have h1: "userUUID freshSession = Some ''u1''" and h2: "''u1'' \<noteq> []"
    by (simp_all add: freshSession_def)
  have r1: "req_file (uploadRequest None (Some pdfFile)) = Some pdfFile"
    "req_subjectId (uploadRequest None (Some pdfFile)) = Some biologyId"
    "req_chapterId (uploadRequest None (Some pdfFile)) = Some cellTheoryId"
    and r2: "req_file (uploadRequest None (Some otherPdfFile)) = Some otherPdfFile"
    "req_subjectId (uploadRequest None (Some otherPdfFile)) = Some biologyId"
    "req_chapterId (uploadRequest None (Some otherPdfFile)) = Some cellTheoryId"
    by (simp_all add: uploadRequest_def)
  have e: "queryOk ?e" "blobSaveOk ?e" "writeOk ?e"
    by (simp_all add: env_examples)
  have g: "gcpConfigured storageServer" "storage storageServer" "bucket storageServer = Some ?b"
    by (simp_all add: storageServer_def)
  have n: "notesOf (castObjectId ?e) storageServer ''u1'' biologyId cellTheoryId = Some []"
    by (simp add: env_examples notes_examples)
  have nm: "gcsFileName ''u1'' biologyId cellTheoryId (now ?e) ''notes.pdf'' = ?name"
    by (simp add: gcsFileName_def biologyId_def cellTheoryId_def millis env_examples)
  have pf: "originalname pdfFile = ''notes.pdf''" "originalname otherPdfFile = ''notes.pdf''"
    "buffer otherPdfFile = ''BBB''" "mimetype otherPdfFile = ''application/pdf''"
    "buffer pdfFile = ''AAA''" "mimetype pdfFile = ''application/pdf''"
    by (simp_all add: pdfFile_def otherPdfFile_def)
  have d: "pdfFile \<noteq> otherPdfFile"
    by (simp add: pdfFile_def otherPdfFile_def)
  note first = upload_file_stored[OF h1 h2 r1 e(1) n g e(2,3)]
  have A: "fst (uploadNoteFile ?e (uploadRequest None (Some pdfFile)) freshSession storageServer) =
        \<lparr>status = 201, body = FileUploaded ''File uploaded''
           ''https://storage.googleapis.com/study-notes/u1/0000000200000000ab000001/0000000300000000ab000002/1700000000123_notes.pdf''\<rparr>"
    by (simp add: first(1) pf nm publicUrl_def)
  have b1: "bucket ?st1 = Some (?b\<lparr>objects := [?name \<mapsto> (''AAA'', ''application/pdf'')]\<rparr>)"
    by (simp add: first(2) pf nm)
  have g1: "gcpConfigured ?st1" "storage ?st1"
    using g e
    by (simp_all add: uploadNoteFile_def saveFileNote_def authenticated_def h1 r1 generated_def
        Let_def env_examples split: option.splits)
  have n1: "notesOf (castObjectId ?e) ?st1 ''u1'' biologyId cellTheoryId =
      Some ([] @ [\<lparr>note_id = generateObjectId ?e storageServer,
                        title = (if orDefault (req_title (uploadRequest None (Some pdfFile))) [] \<noteq> []
                                 then orDefault (req_title (uploadRequest None (Some pdfFile))) []
                                 else originalname pdfFile),
                        note_content = orDefault (req_content (uploadRequest None (Some pdfFile))) [],
                        note_type = orDefault (req_type (uploadRequest None (Some pdfFile))) ''notes'',
                        fileUrl = publicUrl (bucket_name ?b)
                                    (gcsFileName ''u1'' biologyId cellTheoryId (now ?e) (originalname pdfFile)),
                        mimeType = mimetype pdfFile,
                        note_createdAt = createdAtDefault ?e\<rparr>])"
    by (rule first(3))
  note second = upload_file_stored(1,2)[OF h1 h2 r2 e(1) n1 g1 b1 e(2,3)]
  have B: "fst (uploadNoteFile ?e (uploadRequest None (Some otherPdfFile)) freshSession ?st1) =
        \<lparr>status = 201, body = FileUploaded ''File uploaded''
           ''https://storage.googleapis.com/study-notes/u1/0000000200000000ab000001/0000000300000000ab000002/1700000000123_notes.pdf''\<rparr>"
    by (simp add: second(1) pf nm publicUrl_def)
  have C: "bucket (snd (uploadNoteFile ?e (uploadRequest None (Some otherPdfFile)) freshSession ?st1)) =
        Some \<lparr>bucket_name = ''study-notes'',
              objects = [?name \<mapsto> (''BBB'', ''application/pdf'')]\<rparr>"
    by (simp add: second(2) pf nm)
  from d A B C show ?thesis
    by simp
qed


end
